theory Spec2Isabelle
  imports Main
begin

section \<open>Python values\<close>

text \<open>
  The program handles decoded JSON documents with Python's duck typing: a reply of the
  provider is whatever \<^verbatim>\<open>response.json()\<close> and \<^verbatim>\<open>json.loads\<close> give, and no field is
  checked before use. A value is therefore one of Python's JSON types; \<open>JNull\<close> is
  \<^verbatim>\<open>None\<close>. Numbers are integers here (a fractional number behaves like a non-zero integer
  in everything below). A \<^verbatim>\<open>dict\<close> is an association list read with \<open>map_of\<close>.
\<close>

datatype exn =
    ValueError | AttributeError | IndexError | KeyError | TypeError | NameError | RecursionError

datatype json =
    JNull
  | JBool bool
  | JNum int
  | JStr string
  | JArr "json list"
  | JObj "(string \<times> json) list"

text \<open>Truthiness, as \<^verbatim>\<open>if x:\<close> and \<^verbatim>\<open>not x\<close> test it.\<close>

fun py_truthy :: "json \<Rightarrow> bool" where
  "py_truthy JNull = False"
| "py_truthy (JBool b) = b"
| "py_truthy (JNum n) = (n \<noteq> 0)"
| "py_truthy (JStr s) = (s \<noteq> [])"
| "py_truthy (JArr xs) = (xs \<noteq> [])"
| "py_truthy (JObj kvs) = (kvs \<noteq> [])"

text \<open>\<^verbatim>\<open>x.get(key, default)\<close>: only a \<^verbatim>\<open>dict\<close> has the method.\<close>

fun py_get :: "json \<Rightarrow> string \<Rightarrow> json \<Rightarrow> exn + json" where
  "py_get (JObj kvs) k d = Inr (case map_of kvs k of None \<Rightarrow> d | Some v \<Rightarrow> v)"
| "py_get JNull k d = Inl AttributeError"
| "py_get (JBool b) k d = Inl AttributeError"
| "py_get (JNum n) k d = Inl AttributeError"
| "py_get (JStr s) k d = Inl AttributeError"
| "py_get (JArr xs) k d = Inl AttributeError"

text \<open>
  \<^verbatim>\<open>x[0]\<close>: the first item of a list, the first character of a string; an empty one
  raises \<^verbatim>\<open>IndexError\<close>. The keys of a decoded JSON object are strings, so \<^verbatim>\<open>0\<close> is
  never among them; \<^verbatim>\<open>None\<close>, booleans and numbers cannot be subscripted.
\<close>

fun py_item0 :: "json \<Rightarrow> exn + json" where
  "py_item0 (JArr []) = Inl IndexError"
| "py_item0 (JArr (x # xs)) = Inr x"
| "py_item0 (JStr []) = Inl IndexError"
| "py_item0 (JStr (c # cs)) = Inr (JStr [c])"
| "py_item0 (JObj kvs) = Inl KeyError"
| "py_item0 JNull = Inl TypeError"
| "py_item0 (JBool b) = Inl TypeError"
| "py_item0 (JNum n) = Inl TypeError"

text \<open>\<^verbatim>\<open>enumerate(x)\<close>: the items of a list, the characters of a string, the keys of a dict.\<close>

fun py_iter :: "json \<Rightarrow> exn + json list" where
  "py_iter (JArr xs) = Inr xs"
| "py_iter (JStr s) = Inr (map (\<lambda>c. JStr [c]) s)"
| "py_iter (JObj kvs) = Inr (map JStr (remdups (map fst kvs)))"
| "py_iter JNull = Inl TypeError"
| "py_iter (JBool b) = Inl TypeError"
| "py_iter (JNum n) = Inl TypeError"

definition and_then :: "exn + 'a \<Rightarrow> ('a \<Rightarrow> exn + 'b) \<Rightarrow> exn + 'b" where
  "and_then r f = (case r of Inl e \<Rightarrow> Inl e | Inr x \<Rightarrow> f x)"

text \<open>
  \<^verbatim>\<open>str.strip()\<close> with no argument; a character is its code point, below 256.
\<close>

definition py_isspace :: "char \<Rightarrow> bool" where
  "py_isspace c = (of_char c \<in> {9, 10, 11, 12, 13, 28, 29, 30, 31, 32, 133, 160 :: nat})"

definition strip :: "string \<Rightarrow> string" where
  "strip s = rev (dropWhile py_isspace (rev (dropWhile py_isspace s)))"

definition startswith :: "string \<Rightarrow> string \<Rightarrow> bool" where
  "startswith s p = (take (length p) s = p)"

section \<open>The API client\<close>

text \<open>
  What one \<^verbatim>\<open>requests.post\<close> of an attempt comes to: the call itself raises a
  \<^verbatim>\<open>RequestException\<close> (no connection, timeout), \<^verbatim>\<open>raise_for_status()\<close> raises for a
  4xx or 5xx status, \<^verbatim>\<open>response.json()\<close> raises a \<^verbatim>\<open>JSONDecodeError\<close>, it raises
  another exception (the decoder's \<^verbatim>\<open>ValueError\<close> for a number of too many digits, its
  \<^verbatim>\<open>RecursionError\<close> for a body nested too deep), or the body decodes to a value. The
  provider's replies to the successive attempts of one call are a list; an attempt beyond
  its end finds the provider unreachable.
\<close>

datatype http_result = ConnectionFailed | HttpError | BodyNotJson | BodyRaised exn | Body json

text \<open>
  What \<^verbatim>\<open>json.loads\<close> does with a string: it returns the value, raises
  \<^verbatim>\<open>JSONDecodeError\<close>, or raises another exception (as above).
\<close>

datatype decoded = Decoded json | NotJson | DecoderRaised exn

definition reply :: "http_result list \<Rightarrow> nat \<Rightarrow> http_result" where
  "reply rs i = (if i < length rs then rs ! i else ConnectionFailed)"

text \<open>
  \<^verbatim>\<open>.get('candidates', [{}])[0].get('content', {}).get('parts', [{}])[0].get('text')\<close>
\<close>

definition response_text :: "json \<Rightarrow> exn + json" where
  "response_text body =
     and_then (py_get body ''candidates'' (JArr [JObj []])) (\<lambda>candidates.
     and_then (py_item0 candidates) (\<lambda>candidate.
     and_then (py_get candidate ''content'' (JObj [])) (\<lambda>content.
     and_then (py_get content ''parts'' (JArr [JObj []])) (\<lambda>parts.
     and_then (py_item0 parts) (\<lambda>part.
     py_get part ''text'' JNull)))))"

text \<open>
  A call ends by returning a value or with an exception that leaves the function. What
  it does on the way is a trace: one \<open>Post\<close> for each request sent, one \<open>Sleep n\<close> for
  each \<^verbatim>\<open>time.sleep(n)\<close>.
\<close>

datatype outcome = Returned json | Raised exn

datatype effect = Post | Sleep nat

text \<open>
  One pass through the body of the \<^verbatim>\<open>try\<close>: \<open>Caught\<close> when the \<^verbatim>\<open>except\<close> clause
  (\<^verbatim>\<open>RequestException\<close>, \<^verbatim>\<open>JSONDecodeError\<close>) takes the exception, \<open>Finished\<close> when
  the function is left, by a \<^verbatim>\<open>return\<close> or by an exception the clause does not name.
  \<open>loads\<close> is \<^verbatim>\<open>json.loads\<close> on a string; on a value that is not a string it raises
  \<^verbatim>\<open>TypeError\<close>.
\<close>

datatype attempt = Caught | Finished outcome

fun structured_attempt :: "(string \<Rightarrow> decoded) \<Rightarrow> http_result \<Rightarrow> attempt" where
  "structured_attempt loads ConnectionFailed = Caught"
| "structured_attempt loads HttpError = Caught"
| "structured_attempt loads BodyNotJson = Caught"
| "structured_attempt loads (BodyRaised e) = Finished (Raised e)"
| "structured_attempt loads (Body body) =
     (case response_text body of
        Inl e \<Rightarrow> Finished (Raised e)
      | Inr json_text \<Rightarrow>
          if py_truthy json_text then
            (case json_text of
               JStr s \<Rightarrow>
                 (case loads s of
                    Decoded v \<Rightarrow> Finished (Returned v)
                  | NotJson \<Rightarrow> Caught
                  | DecoderRaised e \<Rightarrow> Finished (Raised e))
             | _ \<Rightarrow> Finished (Raised TypeError))
          else Finished (Returned JNull))"

fun debate_attempt :: "http_result \<Rightarrow> attempt" where
  "debate_attempt ConnectionFailed = Caught"
| "debate_attempt HttpError = Caught"
| "debate_attempt BodyNotJson = Caught"
| "debate_attempt (BodyRaised e) = Finished (Raised e)"
| "debate_attempt (Body body) =
     (case response_text body of
        Inl e \<Rightarrow> Finished (Raised e)
      | Inr t \<Rightarrow> Finished (Returned t))"

text \<open>\<^verbatim>\<open>for attempt in range(max_retries)\<close>, and the \<^verbatim>\<open>return None\<close> after it.\<close>

fun structured_attempts ::
  "(string \<Rightarrow> decoded) \<Rightarrow> http_result list \<Rightarrow> nat list \<Rightarrow> outcome \<times> effect list" where
  "structured_attempts loads rs [] = (Returned JNull, [])"
| "structured_attempts loads rs (attempt # rest) =
     (case structured_attempt loads (reply rs attempt) of
        Caught \<Rightarrow>
          (case structured_attempts loads rs rest of
             (out, tr) \<Rightarrow> (out, Post # Sleep (2 ^ attempt) # tr))
      | Finished out \<Rightarrow> (out, [Post]))"

fun debate_attempts :: "http_result list \<Rightarrow> nat list \<Rightarrow> outcome \<times> effect list" where
  "debate_attempts rs [] = (Returned JNull, [])"
| "debate_attempts rs (attempt # rest) =
     (case debate_attempt (reply rs attempt) of
        Caught \<Rightarrow>
          (case debate_attempts rs rest of
             (out, tr) \<Rightarrow> (out, Post # Sleep (2 ^ attempt) # tr))
      | Finished out \<Rightarrow> (out, [Post]))"

text \<open>
  The two client functions. \<open>api_key\<close> is the module constant \<^verbatim>\<open>API_KEY\<close>, which both
  read; the payload (user text or turns, system instruction, schema) is sent with every
  request and plays no part in what the functions do with the replies.
\<close>

definition call_gemini_api_structured ::
  "string \<Rightarrow> (string \<Rightarrow> decoded) \<Rightarrow> http_result list \<Rightarrow> nat \<Rightarrow> outcome \<times> effect list" where
  "call_gemini_api_structured api_key loads rs max_retries =
     (if api_key = [] then (Raised ValueError, [])
      else structured_attempts loads rs [0..<max_retries])"

definition call_gemini_api_debate ::
  "string \<Rightarrow> http_result list \<Rightarrow> nat \<Rightarrow> outcome \<times> effect list" where
  "call_gemini_api_debate api_key rs max_retries =
     (if api_key = [] then (Raised ValueError, [])
      else debate_attempts rs [0..<max_retries])"

text \<open>The configuration as shipped, and the default of \<^verbatim>\<open>max_retries\<close>.\<close>

definition API_KEY :: string where
  "API_KEY = []"

definition MAX_RETRIES :: nat where
  "MAX_RETRIES = 5"

section \<open>The application state\<close>

text \<open>
  \<^verbatim>\<open>VoicepalApp\<close> keeps the session in its attributes and in its widgets. The record
  below holds the attributes, and of each widget what decides whether a handler can run:
  whether a button is enabled (\<^verbatim>\<open>state\<close>), whether it is on screen (\<^verbatim>\<open>grid\<close> and
  \<^verbatim>\<open>grid_remove\<close>) and which handler it calls (\<^verbatim>\<open>command\<close>). Colours, fonts, labels,
  the status line and the loading animation are left out: no handler reads them.

  What the user is shown is kept as data: the lines appended to the conversation log,
  the message boxes and windows opened, the tracebacks of exceptions that no handler
  caught. A formatted string is the list of its pieces, so that a value does not have to
  be printed.
\<close>

datatype piece = Lit string | Val json | ExnText exn

datatype sender = USER | AI | DEBATE | SYSTEM

datatype dialog =
    ShowWarning string string
  | ShowError string "piece list"
  | BlogPostWindow json

record thought_step =
  step :: int
  thought :: json
  focus_question :: json

record debate_turn =
  role :: string
  turn_text :: json

datatype stt_result = SUCCESS string | UNKNOWN | ERROR_REQUEST string | ERROR_GENERAL string

datatype command = ProcessInputThreaded | SendRebuttalThreaded | StartDebateMode | EndDebate

text \<open>
  A started thread is a \<open>worker\<close>; a function handed to \<^verbatim>\<open>master.after\<close> is a
  \<open>callback\<close>. A callback whose \<^verbatim>\<open>lambda\<close> reads the exception variable \<^verbatim>\<open>e\<close> of
  the \<^verbatim>\<open>except\<close> clause that made it carries that exception.
\<close>

datatype worker = RunThoughtProcessing string | RunBlogPostGeneration | RunDebateTurn

datatype callback =
    UpdateGuidedResult string json
  | HandleError "piece list"
  | HandleErrorOf "piece list" exn
  | ShowErrorOf exn
  | ShowBlogPostWindow json
  | UpdateDebateUI json
  | ProcessTranscriptionFromQueue

record app =
  question_widgets :: "json list"
  selected_question :: json
  current_step_data :: json
  conversation_history :: "thought_step list"
  current_step :: int
  loading_active :: bool
  is_debating :: bool
  debate_history :: "debate_turn list"
  is_recording :: bool
  stop_listening :: bool
  audio_queue :: "stt_result list"
  input_text :: string
  process_enabled :: bool
  process_command :: command
  confirm_enabled :: bool
  confirm_shown :: bool
  blog_enabled :: bool
  blog_shown :: bool
  debate_enabled :: bool
  debate_command :: command
  record_enabled :: bool
  action_frame_shown :: bool
  questions_shown :: bool
  conversation_log :: "(sender \<times> piece list) list"
  dialogs :: "dialog list"
  tracebacks :: "exn list"
  workers :: "worker list"
  scheduled :: "callback list"

definition init :: app where
  "init = \<lparr>
     question_widgets = [],
     selected_question = JNull,
     current_step_data = JNull,
     conversation_history = [],
     current_step = 1,
     loading_active = False,
     is_debating = False,
     debate_history = [],
     is_recording = False,
     stop_listening = False,
     audio_queue = [],
     input_text = ''I think, uh, maybe all people should like, you know, work less time and be happier then. I want to talk more about this concept.'',
     process_enabled = True,
     process_command = ProcessInputThreaded,
     confirm_enabled = False,
     confirm_shown = True,
     blog_enabled = False,
     blog_shown = True,
     debate_enabled = False,
     debate_command = StartDebateMode,
     record_enabled = True,
     action_frame_shown = False,
     questions_shown = False,
     conversation_log =
       [(SYSTEM, [Lit ''Voicepal AI Thought Explorer'']),
        (SYSTEM, [Lit ''Welcome! Start by recording or typing your initial thought below. The AI will refine it and offer challenge questions.''])],
     dialogs = [],
     tracebacks = [],
     workers = [],
     scheduled = []
   \<rparr>"

section \<open>Shared utility methods\<close>

definition append_to_log :: "sender \<Rightarrow> piece list \<Rightarrow> app \<Rightarrow> app" where
  "append_to_log who msg s = s\<lparr>conversation_log := conversation_log s @ [(who, msg)]\<rparr>"

definition show_dialog :: "dialog \<Rightarrow> app \<Rightarrow> app" where
  "show_dialog d s = s\<lparr>dialogs := dialogs s @ [d]\<rparr>"

definition report_exception :: "exn \<Rightarrow> app \<Rightarrow> app" where
  "report_exception e s = s\<lparr>tracebacks := tracebacks s @ [e]\<rparr>"

definition set_input_text :: "string \<Rightarrow> app \<Rightarrow> app" where
  "set_input_text t s = s\<lparr>input_text := t\<rparr>"

text \<open>
  \<^verbatim>\<open>set_buttons_state(state, status_text)\<close>: while a recording runs, disabling leaves the
  record button alone. Both branches set the other four buttons.
\<close>

definition set_buttons_state :: "bool \<Rightarrow> app \<Rightarrow> app" where
  "set_buttons_state enabled s =
     (if \<not> enabled \<and> is_recording s then
        s\<lparr>process_enabled := enabled, confirm_enabled := enabled,
          blog_enabled := enabled, debate_enabled := enabled\<rparr>
      else
        s\<lparr>process_enabled := enabled, confirm_enabled := enabled,
          blog_enabled := enabled, debate_enabled := enabled, record_enabled := enabled\<rparr>)"

definition start_loading_animation :: "app \<Rightarrow> app" where
  "start_loading_animation s = s\<lparr>loading_active := True, process_enabled := False\<rparr>"

definition stop_loading_animation :: "app \<Rightarrow> app" where
  "stop_loading_animation s = s\<lparr>loading_active := False\<rparr>"

section \<open>Guided mode\<close>

text \<open>
  \<^verbatim>\<open>create_question_cards(questions)\<close> clears the cards and the selection, disables the
  confirm button, puts the question area and the action frame on screen, and builds one
  card for each item of \<open>questions\<close>. Where \<open>questions\<close> cannot be iterated the
  exception leaves the function after the resets; the result says so.
\<close>

definition create_question_cards :: "json \<Rightarrow> app \<Rightarrow> exn option \<times> app" where
  "create_question_cards questions s =
     (let s1 = s\<lparr>question_widgets := [], selected_question := JNull, confirm_enabled := False,
                  action_frame_shown := True, questions_shown := True\<rparr>
      in case py_iter questions of
           Inl e \<Rightarrow> (Some e, s1)
         | Inr qs \<Rightarrow> (None, s1\<lparr>question_widgets := qs\<rparr>))"

definition select_question :: "json \<Rightarrow> app \<Rightarrow> app" where
  "select_question question_text s =
     s\<lparr>selected_question := question_text, confirm_enabled := True\<rparr>"

definition confirm_focus :: "app \<Rightarrow> app" where
  "confirm_focus s =
     (if \<not> py_truthy (selected_question s) \<or> \<not> py_truthy (current_step_data s) then
        show_dialog (ShowWarning ''Incomplete Data''
          ''Please process a thought and select a challenge question before continuing.'') s
      else
        case py_get (current_step_data s) ''corrected_text'' (JStr ''N/A'') of
          Inl e \<Rightarrow> report_exception e s
        | Inr t \<Rightarrow>
            (let s1 = s\<lparr>conversation_history := conversation_history s @
                          [\<lparr>step = current_step s, thought = t,
                            focus_question = selected_question s\<rparr>],
                        current_step := current_step s + 1\<rparr>;
                 s2 = append_to_log AI
                        [Lit ''You chose to focus on: \"'', Val (selected_question s1), Lit ''\"''] s1;
                 s3 = append_to_log SYSTEM
                        [Lit ''Conversation Step '', Val (JNum (current_step s2)),
                         Lit '': Respond to the question above with your new thought.''] s2;
                 s4 = set_input_text ''Enter your response here...'' s3;
                 s5 = s4\<lparr>question_widgets := [], questions_shown := False,
                         action_frame_shown := False\<rparr>;
                 s6 = s5\<lparr>selected_question := JNull, current_step_data := JNull\<rparr>;
                 s7 = stop_loading_animation s6
             in s7\<lparr>debate_enabled := True, blog_enabled := True\<rparr>))"

definition process_input_threaded :: "app \<Rightarrow> app" where
  "process_input_threaded s =
     (let raw_text = strip (input_text s) in
      if raw_text = [] \<or> startswith raw_text ''Start a new thought here...''
         \<or> startswith raw_text ''Enter your response here...''
         \<or> startswith raw_text ''Enter your counter-argument here...'' then
        show_dialog (ShowWarning ''Missing Input''
          ''Please record or type your thought before processing.'') s
      else
        (let s1 = set_buttons_state False s;
             s2 = start_loading_animation s1
         in s2\<lparr>workers := workers s2 @ [RunThoughtProcessing raw_text]\<rparr>))"

text \<open>
  The worker \<^verbatim>\<open>_run_thought_processing\<close>: it calls the client and hands the outcome to
  the main loop. \<^verbatim>\<open>except Exception\<close> takes every exception of the model.
\<close>

definition run_thought_processing ::
  "string \<Rightarrow> (string \<Rightarrow> decoded) \<Rightarrow> http_result list \<Rightarrow> string \<Rightarrow> app \<Rightarrow> app" where
  "run_thought_processing api_key loads rs raw_text s =
     (case fst (call_gemini_api_structured api_key loads rs MAX_RETRIES) of
        Returned result \<Rightarrow>
          if py_truthy result then
            s\<lparr>scheduled := scheduled s @ [UpdateGuidedResult raw_text result]\<rparr>
          else
            s\<lparr>scheduled := scheduled s @
                 [HandleError [Lit ''API returned no content or failed to parse JSON.'']]\<rparr>
      | Raised ValueError \<Rightarrow>
          s\<lparr>scheduled := scheduled s @ [HandleErrorOf [ExnText ValueError] ValueError]\<rparr>
      | Raised e \<Rightarrow>
          s\<lparr>scheduled := scheduled s @
               [HandleErrorOf [Lit ''An unexpected error occurred: '', ExnText e] e]\<rparr>)"

definition update_guided_result :: "string \<Rightarrow> json \<Rightarrow> app \<Rightarrow> app" where
  "update_guided_result raw_text result s =
     (let s1 = s\<lparr>current_step_data := result\<rparr> in
      case py_get result ''corrected_text'' (JStr ''Correction failed.'') of
        Inl e \<Rightarrow> report_exception e s1
      | Inr corrected_text \<Rightarrow>
          (case py_get result ''challenge_questions'' (JArr []) of
             Inl e \<Rightarrow> report_exception e s1
           | Inr challenge_questions \<Rightarrow>
               (let s2 = set_input_text ''Enter your response here...'' s1;
                    s3 = stop_loading_animation s2
                in case create_question_cards challenge_questions s3 of
                     (Some e, s4) \<Rightarrow> report_exception e s4
                   | (None, s4) \<Rightarrow>
                       (let s5 = set_buttons_state True s4;
                            s6 = s5\<lparr>process_enabled := True, debate_enabled := True,
                                    blog_enabled := (conversation_history s5 \<noteq> [])\<rparr>;
                            s7 = append_to_log USER [Val corrected_text] s6
                        in append_to_log AI
                             [Lit ''Your thought has been refined. Choose one of the challenge questions below to continue your exploration.'']
                             s7))))"

definition handle_error :: "piece list \<Rightarrow> app \<Rightarrow> app" where
  "handle_error message s =
     (let s1 = append_to_log SYSTEM (Lit ''ERROR: Processing failed: '' # message) s;
          s2 = stop_loading_animation s1;
          s3 = set_buttons_state True s2
      in show_dialog (ShowError ''Processing Error'' message) s3)"

section \<open>Mode management\<close>

datatype gui_mode = GUIDED | DEBATE_MODE

text \<open>
  \<^verbatim>\<open>set_gui_mode\<close>. Entering the debate takes the confirm and blog buttons off the
  screen; coming back puts the question area and the action frame on it and calls
  \<^verbatim>\<open>create_question_cards([])\<close>, which cannot raise.
\<close>

definition set_gui_mode :: "gui_mode \<Rightarrow> app \<Rightarrow> app" where
  "set_gui_mode m s =
     (case m of
        GUIDED \<Rightarrow>
          (let s1 = s\<lparr>is_debating := False, process_command := ProcessInputThreaded,
                       debate_command := StartDebateMode, debate_enabled := False,
                       questions_shown := True, action_frame_shown := True\<rparr>
           in snd (create_question_cards (JArr []) s1))
      | DEBATE_MODE \<Rightarrow>
          s\<lparr>is_debating := True, debate_history := [],
            process_command := SendRebuttalThreaded,
            questions_shown := False, confirm_shown := False, blog_shown := False,
            debate_command := EndDebate, debate_enabled := True\<rparr>)"

section \<open>Blog post generation\<close>

definition generate_blog_post_threaded :: "app \<Rightarrow> app" where
  "generate_blog_post_threaded s =
     (case (if py_truthy (current_step_data s)
            then py_get (current_step_data s) ''corrected_text'' JNull else Inr JNull) of
        Inl e \<Rightarrow> report_exception e s
      | Inr last_thought \<Rightarrow>
          if conversation_history s = [] \<and> \<not> py_truthy last_thought then
            show_dialog (ShowWarning ''No History''
              ''You need to process at least one thought before generating a summary!'') s
          else
            (let s1 = set_buttons_state False s;
                 s2 = start_loading_animation s1
             in s2\<lparr>workers := workers s2 @ [RunBlogPostGeneration]\<rparr>))"

text \<open>
  The worker \<^verbatim>\<open>_run_blog_post_generation\<close>. The transcript it compiles is sent as the one
  turn of a chat call and changes nothing here. Only \<^verbatim>\<open>ValueError\<close> is caught; any other
  exception ends the thread.
\<close>

definition run_blog_post_generation :: "string \<Rightarrow> http_result list \<Rightarrow> app \<Rightarrow> app" where
  "run_blog_post_generation api_key rs s =
     (case (if py_truthy (current_step_data s)
            then py_get (current_step_data s) ''corrected_text'' (JStr ''N/A'') else Inr JNull) of
        Inl e \<Rightarrow> report_exception e s
      | Inr final_thought \<Rightarrow>
          (case fst (call_gemini_api_debate api_key rs MAX_RETRIES) of
             Raised ValueError \<Rightarrow>
               s\<lparr>scheduled := scheduled s @
                    [ShowErrorOf ValueError,
                     ShowBlogPostWindow (JStr ''Failed due to configuration error.'')]\<rparr>
           | Raised e \<Rightarrow> report_exception e s
           | Returned blog_post_content \<Rightarrow>
               s\<lparr>scheduled := scheduled s @
                    [ShowBlogPostWindow
                       (if py_truthy blog_post_content then blog_post_content
                        else JStr ''Failed to generate blog post after multiple retries. Check connection or API key.'')]\<rparr>))"

definition show_blog_post_window :: "json \<Rightarrow> app \<Rightarrow> app" where
  "show_blog_post_window content s =
     (let s1 = stop_loading_animation s;
          s2 = set_buttons_state True s1
      in show_dialog (BlogPostWindow content) s2)"

section \<open>Debate mode\<close>

definition send_rebuttal_threaded :: "app \<Rightarrow> app" where
  "send_rebuttal_threaded s =
     (let user_rebuttal = strip (input_text s) in
      if length (debate_history s) > 1
         \<and> (user_rebuttal = [] \<or> user_rebuttal = ''Enter your counter-argument here...'') then
        show_dialog (ShowWarning ''Missing Rebuttal''
          ''Please enter your response to the AI's argument.'') s
      else
        (let s1 = (if length (debate_history s) > 1 then
                     append_to_log USER [Lit user_rebuttal]
                       (s\<lparr>debate_history := debate_history s @
                            [\<lparr>role = ''user'', turn_text = JStr user_rebuttal\<rparr>]\<rparr>)
                   else s);
             s2 = set_buttons_state False s1;
             s3 = start_loading_animation s2;
             s4 = set_input_text [] s3
         in s4\<lparr>workers := workers s4 @ [RunDebateTurn]\<rparr>))"

definition start_debate_mode :: "app \<Rightarrow> app" where
  "start_debate_mode s =
     (case (if py_truthy (current_step_data s)
            then py_get (current_step_data s) ''corrected_text'' JNull else Inr JNull) of
        Inl e \<Rightarrow> report_exception e s
      | Inr initial_argument \<Rightarrow>
          if \<not> py_truthy initial_argument \<or> initial_argument = JStr ''N/A'' then
            show_dialog (ShowWarning ''No Argument''
              ''Please process a thought first and ensure the corrected output is not empty before starting a debate.'') s
          else
            (let s1 = set_gui_mode DEBATE_MODE s;
                 s2 = append_to_log SYSTEM [Lit ''Entering Debate Mode''] s1;
                 s3 = append_to_log SYSTEM
                        [Lit ''Starting debate on your refined statement: \"'',
                         Val initial_argument, Lit ''\"''] s2;
                 s4 = s3\<lparr>debate_history := debate_history s3 @
                           [\<lparr>role = ''user'', turn_text = initial_argument\<rparr>]\<rparr>;
                 s5 = set_input_text ''Enter your counter-argument here...'' s4
             in send_rebuttal_threaded s5))"

definition end_debate :: "app \<Rightarrow> app" where
  "end_debate s =
     (let s1 = set_gui_mode GUIDED s;
          s2 = append_to_log SYSTEM
                 [Lit ''Debate Ended. Returning to Thought Exploration Mode.''] s1;
          s3 = s2\<lparr>debate_history := [], current_step := 1, conversation_history := [],
                  current_step_data := JNull\<rparr>;
          s4 = set_input_text ''Start a new thought here...'' s3;
          s5 = stop_loading_animation s4
      in s5\<lparr>process_enabled := True, debate_enabled := False\<rparr>)"

text \<open>
  The worker \<^verbatim>\<open>_run_debate_turn\<close>. A missing key (\<^verbatim>\<open>ValueError\<close>) and an empty reply
  are each replaced by a fixed sentence, and the sentence is appended as the assistant's
  turn like any reply. Any other exception ends the thread before the append.
\<close>

definition run_debate_turn :: "string \<Rightarrow> http_result list \<Rightarrow> app \<Rightarrow> app" where
  "run_debate_turn api_key rs s =
     (case (case fst (call_gemini_api_debate api_key rs MAX_RETRIES) of
              Raised ValueError \<Rightarrow>
                Inr (s\<lparr>scheduled := scheduled s @ [ShowErrorOf ValueError]\<rparr>,
                     JStr ''Debate turn failed due to configuration error.'')
            | Raised e \<Rightarrow> Inl e
            | Returned v \<Rightarrow> Inr (s, v)) of
        Inl e \<Rightarrow> report_exception e s
      | Inr (s1, reply_text) \<Rightarrow>
          (let ai_rebuttal =
                 (if py_truthy reply_text then reply_text
                  else JStr ''AI failed to generate a rebuttal after multiple retries. Try ending and restarting the debate.'');
               s2 = s1\<lparr>debate_history := debate_history s1 @
                         [\<lparr>role = ''assistant'', turn_text = ai_rebuttal\<rparr>]\<rparr>
           in s2\<lparr>scheduled := scheduled s2 @ [UpdateDebateUI ai_rebuttal]\<rparr>))"

definition update_debate_ui :: "json \<Rightarrow> app \<Rightarrow> app" where
  "update_debate_ui ai_rebuttal s =
     (let s1 = stop_loading_animation s;
          s2 = append_to_log DEBATE [Val ai_rebuttal] s1;
          s3 = set_input_text ''Enter your counter-argument here...'' s2;
          s4 = set_buttons_state True s3
      in s4\<lparr>debate_command := EndDebate, debate_enabled := True\<rparr>)"

section \<open>Speech input\<close>

text \<open>
  What \<^verbatim>\<open>recognize_google\<close> does with one phrase the listener thread caught, and the
  queue item \<^verbatim>\<open>speech_callback\<close> makes of it.
\<close>

datatype recognition = Recognized string | NotUnderstood | RequestFailed string | OtherFailure string

definition speech_callback :: "recognition \<Rightarrow> app \<Rightarrow> app" where
  "speech_callback r s =
     (let item = (case r of
                    Recognized transcription \<Rightarrow> SUCCESS transcription
                  | NotUnderstood \<Rightarrow> UNKNOWN
                  | RequestFailed e \<Rightarrow> ERROR_REQUEST (''Request failed: '' @ e)
                  | OtherFailure e \<Rightarrow> ERROR_GENERAL (''General error: '' @ e))
      in s\<lparr>audio_queue := audio_queue s @ [item],
           scheduled := scheduled s @ [ProcessTranscriptionFromQueue]\<rparr>)"

definition record_input_toggle :: "app \<Rightarrow> app" where
  "record_input_toggle s =
     (if \<not> is_recording s then
        s\<lparr>is_recording := True, input_text := [], process_enabled := False,
          stop_listening := True\<rparr>
      else
        s\<lparr>is_recording := False, stop_listening := False\<rparr>)"

definition process_transcription_from_queue :: "app \<Rightarrow> app" where
  "process_transcription_from_queue s =
     (let s1 = s\<lparr>process_enabled := True\<rparr> in
      case audio_queue s1 of
        [] \<Rightarrow> s1
      | result # rest \<Rightarrow>
          (let s2 = s1\<lparr>audio_queue := rest\<rparr> in
           case result of
             SUCCESS transcription \<Rightarrow>
               stop_loading_animation (set_input_text transcription s2)
           | UNKNOWN \<Rightarrow>
               show_dialog (ShowWarning ''Error''
                 ''Speech Recognition could not understand the audio.'')
                 (stop_loading_animation s2)
           | ERROR_REQUEST e \<Rightarrow>
               show_dialog (ShowError ''STT Error''
                 [Lit ''Could not request results from STT service; '', Lit e])
                 (stop_loading_animation s2)
           | ERROR_GENERAL e \<Rightarrow>
               show_dialog (ShowError ''Error''
                 [Lit ''An unexpected error occurred: '', Lit e])
                 (stop_loading_animation s2)))"

section \<open>The main loop\<close>

text \<open>
  What can happen next: the user edits the input box, clicks a button or a question
  card, speaks a phrase while the listener runs; a worker thread runs to its end (with
  the provider's replies to its call); the main loop runs a scheduled callback. A click
  reaches the handler only when the widget is enabled and on screen; the confirm, blog
  and debate buttons sit in the action frame, the cards in the question area.

  A callback that reads the exception variable of an \<^verbatim>\<open>except\<close> clause finds it bound
  only while the worker is still inside the clause; Python unbinds the variable at the
  end of the clause, and the callback then raises \<^verbatim>\<open>NameError\<close>. The event says which.
\<close>

datatype event =
    TypeText string
  | ClickProcess
  | ClickConfirm
  | ClickBlogPost
  | ClickDebate
  | ClickRecord
  | ClickCard nat
  | PhraseHeard recognition
  | WorkerRuns nat "http_result list"
  | CallbackRuns nat bool

definition run_command :: "command \<Rightarrow> app \<Rightarrow> app" where
  "run_command c s =
     (case c of
        ProcessInputThreaded \<Rightarrow> process_input_threaded s
      | SendRebuttalThreaded \<Rightarrow> send_rebuttal_threaded s
      | StartDebateMode \<Rightarrow> start_debate_mode s
      | EndDebate \<Rightarrow> end_debate s)"

definition run_worker ::
  "string \<Rightarrow> (string \<Rightarrow> decoded) \<Rightarrow> http_result list \<Rightarrow> worker \<Rightarrow> app \<Rightarrow> app" where
  "run_worker api_key loads rs w s =
     (case w of
        RunThoughtProcessing raw_text \<Rightarrow> run_thought_processing api_key loads rs raw_text s
      | RunBlogPostGeneration \<Rightarrow> run_blog_post_generation api_key rs s
      | RunDebateTurn \<Rightarrow> run_debate_turn api_key rs s)"

definition run_callback :: "bool \<Rightarrow> callback \<Rightarrow> app \<Rightarrow> app" where
  "run_callback e_bound c s =
     (case c of
        UpdateGuidedResult raw_text result \<Rightarrow> update_guided_result raw_text result s
      | HandleError message \<Rightarrow> handle_error message s
      | HandleErrorOf message e \<Rightarrow>
          if e_bound then handle_error message s else report_exception NameError s
      | ShowErrorOf e \<Rightarrow>
          if e_bound then show_dialog (ShowError ''API Error'' [ExnText e]) s
          else report_exception NameError s
      | ShowBlogPostWindow content \<Rightarrow> show_blog_post_window content s
      | UpdateDebateUI ai_rebuttal \<Rightarrow> update_debate_ui ai_rebuttal s
      | ProcessTranscriptionFromQueue \<Rightarrow> process_transcription_from_queue s)"

definition without :: "nat \<Rightarrow> 'a list \<Rightarrow> 'a list" where
  "without k xs = take k xs @ drop (Suc k) xs"

definition handle_event :: "string \<Rightarrow> (string \<Rightarrow> decoded) \<Rightarrow> event \<Rightarrow> app \<Rightarrow> app" where
  "handle_event api_key loads ev s =
     (case ev of
        TypeText t \<Rightarrow> set_input_text t s
      | ClickProcess \<Rightarrow>
          if process_enabled s then run_command (process_command s) s else s
      | ClickConfirm \<Rightarrow>
          if confirm_enabled s \<and> confirm_shown s \<and> action_frame_shown s
          then confirm_focus s else s
      | ClickBlogPost \<Rightarrow>
          if blog_enabled s \<and> blog_shown s \<and> action_frame_shown s
          then generate_blog_post_threaded s else s
      | ClickDebate \<Rightarrow>
          if debate_enabled s \<and> action_frame_shown s
          then run_command (debate_command s) s else s
      | ClickRecord \<Rightarrow>
          if record_enabled s then record_input_toggle s else s
      | ClickCard k \<Rightarrow>
          if questions_shown s \<and> k < length (question_widgets s)
          then select_question (question_widgets s ! k) s else s
      | PhraseHeard r \<Rightarrow>
          if stop_listening s then speech_callback r s else s
      | WorkerRuns k rs \<Rightarrow>
          if k < length (workers s)
          then run_worker api_key loads rs (workers s ! k) (s\<lparr>workers := without k (workers s)\<rparr>)
          else s
      | CallbackRuns k e_bound \<Rightarrow>
          if k < length (scheduled s)
          then run_callback e_bound (scheduled s ! k) (s\<lparr>scheduled := without k (scheduled s)\<rparr>)
          else s)"

fun run_events :: "string \<Rightarrow> (string \<Rightarrow> decoded) \<Rightarrow> event list \<Rightarrow> app \<Rightarrow> app" where
  "run_events api_key loads [] s = s"
| "run_events api_key loads (ev # evs) s = run_events api_key loads evs (handle_event api_key loads ev s)"

section \<open>Notions used to state the properties\<close>

subsection \<open>Replies and traces of the client\<close>

text \<open>
  The kinds of reply an attempt can meet. \<open>transient\<close>: the request or its status
  raised, or decoding its body raised \<^verbatim>\<open>JSONDecodeError\<close>. \<open>payload_of\<close>: the text part of a body that has the
  expected shape. \<open>empty_payload\<close>: that text is missing or empty. \<open>undecodable\<close>: that
  text is a non-empty string which \<^verbatim>\<open>json.loads\<close> rejects.
\<close>

definition transient :: "http_result \<Rightarrow> bool" where
  "transient r = (r = ConnectionFailed \<or> r = HttpError \<or> r = BodyNotJson)"

definition payload_of :: "http_result \<Rightarrow> json option" where
  "payload_of r =
     (case r of
        Body body \<Rightarrow> (case response_text body of Inl e \<Rightarrow> None | Inr t \<Rightarrow> Some t)
      | _ \<Rightarrow> None)"

definition empty_payload :: "http_result \<Rightarrow> bool" where
  "empty_payload r = (case payload_of r of None \<Rightarrow> False | Some t \<Rightarrow> \<not> py_truthy t)"

definition undecodable :: "(string \<Rightarrow> decoded) \<Rightarrow> http_result \<Rightarrow> bool" where
  "undecodable loads r =
     (case payload_of r of Some (JStr s) \<Rightarrow> s \<noteq> [] \<and> loads s = NotJson | _ \<Rightarrow> False)"

definition decodes_to_null :: "(string \<Rightarrow> decoded) \<Rightarrow> http_result \<Rightarrow> bool" where
  "decodes_to_null loads r =
     (case payload_of r of Some (JStr s) \<Rightarrow> s \<noteq> [] \<and> loads s = Decoded JNull | _ \<Rightarrow> False)"

text \<open>
  The exceptions that leave the function. \<open>malformed\<close>: decoding the body raised
  something other than \<^verbatim>\<open>JSONDecodeError\<close>, or the body has not the expected shape and
  reading the text out of it raised. \<open>structured_escape\<close>: the reply is malformed, or its
  text is a value other than a string and not empty, or \<^verbatim>\<open>json.loads\<close> raised something
  other than \<^verbatim>\<open>JSONDecodeError\<close> on it.
\<close>

definition malformed :: "http_result \<Rightarrow> exn option" where
  "malformed r =
     (case r of
        BodyRaised e \<Rightarrow> Some e
      | Body body \<Rightarrow> (case response_text body of Inl e \<Rightarrow> Some e | Inr t \<Rightarrow> None)
      | _ \<Rightarrow> None)"

definition structured_escape :: "(string \<Rightarrow> decoded) \<Rightarrow> http_result \<Rightarrow> exn option" where
  "structured_escape loads r =
     (case malformed r of
        Some e \<Rightarrow> Some e
      | None \<Rightarrow>
          (case payload_of r of
             None \<Rightarrow> None
           | Some t \<Rightarrow>
               if \<not> py_truthy t then None
               else (case t of
                       JStr s \<Rightarrow> (case loads s of DecoderRaised e \<Rightarrow> Some e | _ \<Rightarrow> None)
                     | _ \<Rightarrow> Some TypeError)))"

text \<open>
  A failed attempt in the words of the specification, for each operation: a transport
  error or a non-success status, or a body of the expected shape whose text is empty
  or, for the structured call, is not JSON.
\<close>

definition structured_attempt_fails :: "(string \<Rightarrow> decoded) \<Rightarrow> http_result \<Rightarrow> bool" where
  "structured_attempt_fails loads r = (transient r \<or> empty_payload r \<or> undecodable loads r)"

definition chat_attempt_fails :: "http_result \<Rightarrow> bool" where
  "chat_attempt_fails r = (transient r \<or> empty_payload r)"

text \<open>The replies after which the structured call sleeps and tries again.\<close>

definition structured_retried :: "(string \<Rightarrow> decoded) \<Rightarrow> http_result \<Rightarrow> bool" where
  "structured_retried loads r = (transient r \<or> undecodable loads r)"

definition attempts_all :: "(http_result \<Rightarrow> bool) \<Rightarrow> http_result list \<Rightarrow> nat \<Rightarrow> bool" where
  "attempts_all P rs n = list_all (\<lambda>i. P (reply rs i)) [0..<n]"

definition first_attempt_not :: "(http_result \<Rightarrow> bool) \<Rightarrow> http_result list \<Rightarrow> nat \<Rightarrow> nat option" where
  "first_attempt_not P rs n = find (\<lambda>i. \<not> P (reply rs i)) [0..<n]"

definition posts :: "effect list \<Rightarrow> nat" where
  "posts tr = length (filter (\<lambda>e. e = Post) tr)"

definition sleeps :: "effect list \<Rightarrow> nat list" where
  "sleeps tr = concat (map (\<lambda>e. case e of Post \<Rightarrow> [] | Sleep n \<Rightarrow> [n]) tr)"

definition retry_trace :: "nat \<Rightarrow> effect list" where
  "retry_trace k = concat (map (\<lambda>i. [Post, Sleep (2 ^ i)]) [0..<k])"

subsection \<open>Session invariants\<close>

definition step_counts_history :: "app \<Rightarrow> bool" where
  "step_counts_history s = (current_step s = int (length (conversation_history s)) + 1)"

fun alternates_from :: "string \<Rightarrow> debate_turn list \<Rightarrow> bool" where
  "alternates_from r [] = True"
| "alternates_from r (t # ts) =
     (role t = r \<and> alternates_from (if r = ''user'' then ''assistant'' else ''user'') ts)"

definition alternates :: "debate_turn list \<Rightarrow> bool" where
  "alternates ts = alternates_from ''user'' ts"

text \<open>
  The bookkeeping behind the alternation. A \<open>job\<close> is a worker thread that has not
  finished or a callback that has not run, the error boxes apart. A run is
  \<open>typed_only\<close> when no phrase is dictated in it. A state is \<open>orderly\<close> when at most one
  job is outstanding; while one is, the process button is disabled and the debate and
  blog buttons cannot be clicked; the debate turns alternate and end with the user's
  turn while a debate worker runs, with the assistant's turn when its callback is
  scheduled or the send button is enabled; the jobs are those of the mode the process
  button is in; and no transcription callback is scheduled.
\<close>

definition significant :: "callback \<Rightarrow> bool" where
  "significant c = (case c of ShowErrorOf e \<Rightarrow> False | _ \<Rightarrow> True)"

definition debate_callback :: "callback \<Rightarrow> bool" where
  "debate_callback c = (case c of UpdateDebateUI a \<Rightarrow> True | _ \<Rightarrow> False)"

definition jobs :: "app \<Rightarrow> nat" where
  "jobs s = length (workers s) + length (filter significant (scheduled s))"

definition last_role :: "debate_turn list \<Rightarrow> string" where
  "last_role ts = (if ts = [] then [] else role (last ts))"

definition typed_only :: "event list \<Rightarrow> bool" where
  "typed_only evs = list_all (\<lambda>ev. case ev of PhraseHeard r \<Rightarrow> False | _ \<Rightarrow> True) evs"

definition orderly :: "app \<Rightarrow> bool" where
  "orderly s =
     (jobs s \<le> 1
      \<and> (jobs s = 1 \<longrightarrow>
            \<not> process_enabled s
            \<and> (action_frame_shown s \<longrightarrow> \<not> debate_enabled s \<and> \<not> blog_enabled s))
      \<and> alternates (debate_history s)
      \<and> (RunDebateTurn \<in> set (workers s) \<longrightarrow> last_role (debate_history s) = ''user'')
      \<and> ((\<exists>c \<in> set (scheduled s). debate_callback c) \<longrightarrow>
            last_role (debate_history s) = ''assistant'')
      \<and> (process_enabled s \<and> process_command s = SendRebuttalThreaded \<longrightarrow>
            last_role (debate_history s) = ''assistant'')
      \<and> (process_command s = SendRebuttalThreaded \<longrightarrow>
            set (workers s) \<subseteq> {RunDebateTurn}
            \<and> (\<forall>c \<in> set (scheduled s). debate_callback c \<or> \<not> significant c)
            \<and> \<not> confirm_shown s \<and> \<not> blog_shown s)
      \<and> (process_command s = ProcessInputThreaded \<longrightarrow>
            RunDebateTurn \<notin> set (workers s)
            \<and> (\<forall>c \<in> set (scheduled s). \<not> debate_callback c))
      \<and> (process_command s = ProcessInputThreaded \<or> process_command s = SendRebuttalThreaded)
      \<and> (debate_command s = StartDebateMode \<or> debate_command s = EndDebate)
      \<and> ProcessTranscriptionFromQueue \<notin> set (scheduled s))"

subsection \<open>Sample replies and sessions\<close>

text \<open>
  A body of the expected shape around a text, two payloads with their decodings, and
  \<^verbatim>\<open>json.loads\<close> as a table on these payloads (any other string of the examples is not
  JSON).
\<close>

definition body_with_text :: "json \<Rightarrow> json" where
  "body_with_text t =
     JObj [(''candidates'', JArr [JObj [(''content'', JObj [(''parts'', JArr [JObj [(''text'', t)]])])]])]"

definition payload_three :: string where
  \<open>payload_three = ''{"corrected_text": "People should work fewer hours.", "challenge_questions": ["q1", "q2", "q3"]}''\<close>

definition result_three :: json where
  "result_three =
     JObj [(''corrected_text'', JStr ''People should work fewer hours.''),
           (''challenge_questions'', JArr [JStr ''q1'', JStr ''q2'', JStr ''q3''])]"

definition payload_two :: string where
  \<open>payload_two = ''{"corrected_text": "X", "challenge_questions": ["q1", "q2"]}''\<close>

definition result_two :: json where
  "result_two =
     JObj [(''corrected_text'', JStr ''X''),
           (''challenge_questions'', JArr [JStr ''q1'', JStr ''q2''])]"

definition sample_loads :: "string \<Rightarrow> decoded" where
  "sample_loads s =
     (if s = payload_three then Decoded result_three
      else if s = payload_two then Decoded result_two
      else NotJson)"

text \<open>A thought is processed; its second question is chosen and confirmed.\<close>

definition thought_processed :: "event list" where
  "thought_processed =
     [TypeText ''I think people should work less'', ClickProcess,
      WorkerRuns 0 [Body (body_with_text (JStr payload_three))], CallbackRuns 0 True]"

definition focus_confirmed :: "event list" where
  "focus_confirmed = thought_processed @ [ClickCard 1, ClickConfirm]"

text \<open>
  A debate on a processed thought: the opponent answers the opening statement, the user
  sends a rebuttal, and the turn for it is in flight.
\<close>

definition rebuttal_sent :: "event list" where
  "rebuttal_sent =
     thought_processed @
     [ClickDebate, WorkerRuns 0 [Body (body_with_text (JStr ''Not so.''))], CallbackRuns 0 True,
      TypeText ''Yes so.'', ClickProcess]"

text \<open>
  A debate in which the user dictates: the first phrase is sent as a rebuttal while the
  recording goes on, and a second phrase arrives while the turn is in flight.
\<close>

definition dictated_twice :: "event list" where
  "dictated_twice =
     thought_processed @
     [ClickDebate, WorkerRuns 0 [Body (body_with_text (JStr ''Not so.''))], CallbackRuns 0 True,
      ClickRecord,
      PhraseHeard (Recognized ''Yes so.''), CallbackRuns 0 True, ClickProcess,
      PhraseHeard (Recognized ''I insist.''), CallbackRuns 0 True, ClickProcess]"

text \<open>
  Replies to one call: an empty text first, then what would have been a good answer.
\<close>

definition empty_then_good :: "http_result list" where
  "empty_then_good =
     [Body (body_with_text (JStr [])), Body (body_with_text (JStr payload_three))]"

definition missing_then_good :: "http_result list" where
  "missing_then_good =
     [Body (JObj []), Body (body_with_text (JStr ''Not so.''))]"

text \<open>A reply whose body is JSON of another shape: the list of candidates is empty.\<close>

definition no_candidates :: "http_result list" where
  "no_candidates = [Body (JObj [(''candidates'', JArr [])])]"

text \<open>A thought whose refinement comes back with two questions.\<close>

definition two_questions_processed :: "event list" where
  "two_questions_processed =
     [TypeText ''X?'', ClickProcess,
      WorkerRuns 0 [Body (body_with_text (JStr payload_two))], CallbackRuns 0 True]"

section \<open>Properties\<close>

subsection \<open>Helper facts\<close>

lemma upt5: "[0..<5] = [0, 1, 2, 3, 4]"
  by (simp add: upt_rec)

subsection \<open>One attempt\<close>

lemma structured_attempt_Caught:
  "structured_attempt loads r = Caught \<longleftrightarrow> structured_retried loads r"
  by (cases r)
     (auto simp: structured_retried_def transient_def undecodable_def payload_of_def
           split: sum.splits json.splits option.splits decoded.splits)

lemma debate_attempt_Caught:
  "debate_attempt r = Caught \<longleftrightarrow> transient r"
  by (cases r) (auto simp: transient_def split: sum.splits)

lemma structured_attempt_null:
  "structured_attempt loads r = Finished (Returned JNull)
     \<longleftrightarrow> empty_payload r \<or> decodes_to_null loads r"
  by (cases r)
     (auto simp: empty_payload_def decodes_to_null_def payload_of_def
           split: sum.splits json.splits option.splits decoded.splits)

lemma debate_attempt_null:
  "debate_attempt r = Finished (Returned JNull) \<longleftrightarrow> payload_of r = Some JNull"
  by (cases r) (auto simp: payload_of_def split: sum.splits)

lemma structured_attempt_fails_no_raise:
  "structured_attempt_fails loads r \<Longrightarrow>
     structured_attempt loads r = Caught \<or> structured_attempt loads r = Finished (Returned JNull)"
  by (cases r)
     (auto simp: structured_attempt_fails_def transient_def empty_payload_def undecodable_def
                 payload_of_def
           split: sum.splits json.splits option.splits decoded.splits)

lemma chat_attempt_fails_no_raise:
  "chat_attempt_fails r \<Longrightarrow>
     debate_attempt r = Caught \<or> (\<exists>v. debate_attempt r = Finished (Returned v) \<and> \<not> py_truthy v)"
  by (cases r)
     (auto simp: chat_attempt_fails_def transient_def empty_payload_def payload_of_def
           split: sum.splits)

subsection \<open>The retry loops\<close>

text \<open>The loops, by the first attempt that is not caught.\<close>

lemma structured_attempts_fst:
  "fst (structured_attempts loads rs is) =
     (case find (\<lambda>i. \<not> structured_retried loads (reply rs i)) is of
        None \<Rightarrow> Returned JNull
      | Some k \<Rightarrow> (case structured_attempt loads (reply rs k) of
                    Finished out \<Rightarrow> out | Caught \<Rightarrow> Returned JNull))"
  by (induction "is")
     (auto simp: structured_attempt_Caught[symmetric] split: attempt.splits prod.splits)

lemma structured_attempts_snd:
  "snd (structured_attempts loads rs is) =
     concat (map (\<lambda>i. [Post, Sleep (2 ^ i)])
               (takeWhile (\<lambda>i. structured_retried loads (reply rs i)) is))
     @ (case find (\<lambda>i. \<not> structured_retried loads (reply rs i)) is of
          None \<Rightarrow> [] | Some k \<Rightarrow> [Post])"
  by (induction "is")
     (auto simp: structured_attempt_Caught[symmetric] split: attempt.splits prod.splits)

lemma debate_attempts_fst:
  "fst (debate_attempts rs is) =
     (case find (\<lambda>i. \<not> transient (reply rs i)) is of
        None \<Rightarrow> Returned JNull
      | Some k \<Rightarrow> (case debate_attempt (reply rs k) of
                    Finished out \<Rightarrow> out | Caught \<Rightarrow> Returned JNull))"
  by (induction "is")
     (auto simp: debate_attempt_Caught[symmetric] split: attempt.splits prod.splits)

lemma debate_attempts_snd:
  "snd (debate_attempts rs is) =
     concat (map (\<lambda>i. [Post, Sleep (2 ^ i)])
               (takeWhile (\<lambda>i. transient (reply rs i)) is))
     @ (case find (\<lambda>i. \<not> transient (reply rs i)) is of
          None \<Rightarrow> [] | Some k \<Rightarrow> [Post])"
  by (induction "is")
     (auto simp: debate_attempt_Caught[symmetric] split: attempt.splits prod.splits)

text \<open>Searching an interval.\<close>

lemma find_upt_takeWhile:
  "find (\<lambda>i. \<not> P i) [m..<n] = Some k \<Longrightarrow> takeWhile P [m..<n] = [m..<k] \<and> m \<le> k \<and> k < n"
proof (induction "n - m" arbitrary: m)
  case 0
  then show ?case by simp
next
  case (Suc d)
  then have mn: "m < n" by simp
  have u: "[m..<n] = m # [Suc m..<n]" using mn by (rule upt_conv_Cons)
  show ?case
  proof (cases "P m")
    case True
    with Suc.prems have f: "find (\<lambda>i. \<not> P i) [Suc m..<n] = Some k"
      unfolding u by simp
    from Suc.hyps(2) have "d = n - Suc m" by simp
    from Suc.hyps(1)[OF this f]
    have ih: "takeWhile P [Suc m..<n] = [Suc m..<k]" "Suc m \<le> k" "k < n" by auto
    have "[m..<k] = m # [Suc m..<k]" using ih(2) by (intro upt_conv_Cons) simp
    with ih True show ?thesis unfolding u by simp
  next
    case False
    with Suc.prems mn show ?thesis unfolding u by auto
  qed
qed

lemma find_None_takeWhile:
  "find (\<lambda>i. \<not> P i) xs = None \<Longrightarrow> takeWhile P xs = xs"
  by (induction xs) (auto split: if_splits)

lemma retry_trace_posts: "posts (retry_trace k) = k"
  by (induction k) (simp_all add: retry_trace_def posts_def)

lemma retry_trace_sleeps: "sleeps (retry_trace k) = map (\<lambda>i. 2 ^ i) [0..<k]"
  by (induction k) (simp_all add: retry_trace_def sleeps_def)

lemma structured_trace:
  "snd (structured_attempts loads rs [0..<n]) =
     (case first_attempt_not (structured_retried loads) rs n of
        None \<Rightarrow> retry_trace n | Some k \<Rightarrow> retry_trace k @ [Post])"
  by (auto simp: structured_attempts_snd first_attempt_not_def retry_trace_def
                 find_None_takeWhile
           dest: find_upt_takeWhile split: option.splits)

lemma debate_trace:
  "snd (debate_attempts rs [0..<n]) =
     (case first_attempt_not transient rs n of
        None \<Rightarrow> retry_trace n | Some k \<Rightarrow> retry_trace k @ [Post])"
  by (auto simp: debate_attempts_snd first_attempt_not_def retry_trace_def
                 find_None_takeWhile
           dest: find_upt_takeWhile split: option.splits)

lemma first_attempt_not_bound:
  "first_attempt_not P rs n = Some k \<Longrightarrow> k < n"
  unfolding first_attempt_not_def by (auto dest: find_upt_takeWhile)

lemma first_attempt_not_None:
  "first_attempt_not P rs n = None \<longleftrightarrow> attempts_all P rs n"
  unfolding first_attempt_not_def attempts_all_def
  by (auto simp: find_None_iff list_all_iff)

lemma posts_append: "posts (xs @ ys) = posts xs + posts ys"
  by (simp add: posts_def)

lemma sleeps_append: "sleeps (xs @ ys) = sleeps xs @ sleeps ys"
  by (simp add: sleeps_def)

lemma posts_Post: "posts [Post] = 1"
  by (simp add: posts_def)

lemma sleeps_Post: "sleeps [Post] = []"
  by (simp add: sleeps_def)

lemma sleeps_retry_trace5: "sleeps (retry_trace 5) = [1, 2, 4, 8, 16]"
  by (simp add: retry_trace_sleeps upt5)

lemma first_attempt_not_Some:
  "first_attempt_not P rs n = Some k \<Longrightarrow> \<not> P (reply rs k) \<and> k < n"
  unfolding first_attempt_not_def by (auto simp: find_Some_iff)

lemma attempts_allD: "attempts_all P rs n \<Longrightarrow> k < n \<Longrightarrow> P (reply rs k)"
  by (simp add: attempts_all_def list_all_iff)

lemma structured_result:
  "api_key \<noteq> [] \<Longrightarrow>
   fst (call_gemini_api_structured api_key loads rs n) =
     (case first_attempt_not (structured_retried loads) rs n of
        None \<Rightarrow> Returned JNull
      | Some k \<Rightarrow> (case structured_attempt loads (reply rs k) of
                    Finished out \<Rightarrow> out | Caught \<Rightarrow> Returned JNull))"
  by (simp add: call_gemini_api_structured_def structured_attempts_fst first_attempt_not_def)

lemma debate_result:
  "api_key \<noteq> [] \<Longrightarrow>
   fst (call_gemini_api_debate api_key rs n) =
     (case first_attempt_not transient rs n of
        None \<Rightarrow> Returned JNull
      | Some k \<Rightarrow> (case debate_attempt (reply rs k) of
                    Finished out \<Rightarrow> out | Caught \<Rightarrow> Returned JNull))"
  by (simp add: call_gemini_api_debate_def debate_attempts_fst first_attempt_not_def)

lemma structured_all_fail_null:
  assumes "api_key \<noteq> []" "attempts_all (structured_attempt_fails loads) rs n"
  shows "fst (call_gemini_api_structured api_key loads rs n) = Returned JNull"
proof (cases "first_attempt_not (structured_retried loads) rs n")
  case None
  with assms(1) show ?thesis by (simp add: structured_result)
next
  case (Some k)
  then have "k < n" by (rule first_attempt_not_bound)
  with assms(2) have "structured_attempt_fails loads (reply rs k)" by (rule attempts_allD)
  from structured_attempt_fails_no_raise[OF this] Some assms(1) show ?thesis
    by (auto simp: structured_result)
qed

lemma debate_all_fail_falsy:
  assumes "api_key \<noteq> []" "attempts_all chat_attempt_fails rs n"
  shows "\<exists>v. fst (call_gemini_api_debate api_key rs n) = Returned v \<and> \<not> py_truthy v"
proof (cases "first_attempt_not transient rs n")
  case None
  with assms(1) show ?thesis by (simp add: debate_result)
next
  case (Some k)
  then have "k < n" by (rule first_attempt_not_bound)
  with assms(2) have "chat_attempt_fails (reply rs k)" by (rule attempts_allD)
  from chat_attempt_fails_no_raise[OF this] Some assms(1) show ?thesis
    by (auto simp: debate_result)
qed

lemma structured_null_iff:
  assumes "api_key \<noteq> []"
  shows "fst (call_gemini_api_structured api_key loads rs n) = Returned JNull \<longleftrightarrow>
     (case first_attempt_not (structured_retried loads) rs n of
        None \<Rightarrow> True
      | Some k \<Rightarrow> empty_payload (reply rs k) \<or> decodes_to_null loads (reply rs k))"
proof (cases "first_attempt_not (structured_retried loads) rs n")
  case None
  with assms show ?thesis by (simp add: structured_result)
next
  case (Some k)
  then have "structured_attempt loads (reply rs k) \<noteq> Caught"
    by (auto dest: first_attempt_not_Some simp: structured_attempt_Caught)
  with Some assms show ?thesis
    using structured_attempt_null[of loads "reply rs k"]
    by (auto simp: structured_result split: attempt.splits)
qed

lemma debate_null_iff:
  assumes "api_key \<noteq> []"
  shows "fst (call_gemini_api_debate api_key rs n) = Returned JNull \<longleftrightarrow>
     (case first_attempt_not transient rs n of
        None \<Rightarrow> True
      | Some k \<Rightarrow> payload_of (reply rs k) = Some JNull)"
proof (cases "first_attempt_not transient rs n")
  case None
  with assms show ?thesis by (simp add: debate_result)
next
  case (Some k)
  then have "debate_attempt (reply rs k) \<noteq> Caught"
    by (auto dest: first_attempt_not_Some simp: debate_attempt_Caught)
  with Some assms show ?thesis
    using debate_attempt_null[of "reply rs k"]
    by (auto simp: debate_result split: attempt.splits)
qed

lemma structured_posts:
  "api_key \<noteq> [] \<Longrightarrow>
   posts (snd (call_gemini_api_structured api_key loads rs n)) =
     (case first_attempt_not (structured_retried loads) rs n of None \<Rightarrow> n | Some k \<Rightarrow> k + 1)"
  by (simp add: call_gemini_api_structured_def structured_trace posts_append retry_trace_posts
      posts_Post split: option.splits)

lemma debate_posts:
  "api_key \<noteq> [] \<Longrightarrow>
   posts (snd (call_gemini_api_debate api_key rs n)) =
     (case first_attempt_not transient rs n of None \<Rightarrow> n | Some k \<Rightarrow> k + 1)"
  by (simp add: call_gemini_api_debate_def debate_trace posts_append retry_trace_posts
      posts_Post split: option.splits)

subsection \<open>The shipped configuration\<close>

text \<open>
  Claim C10. The API key constant is the empty string, so the structured call and the
  chat call both raise \<^verbatim>\<open>ValueError\<close> at once: the trace of the call is empty, no request
  was sent and no retry loop entered, whatever the provider would have replied and
  whatever the retry budget.
\<close>

theorem shipped_key_raises_value_error:
  "call_gemini_api_structured API_KEY loads rs n = (Raised ValueError, [])
   \<and> call_gemini_api_debate API_KEY rs n = (Raised ValueError, [])"
  by (simp add: call_gemini_api_structured_def call_gemini_api_debate_def API_KEY_def)

theorem shipped_key_raises_value_error_witness:
  "call_gemini_api_structured API_KEY sample_loads [Body (body_with_text (JStr payload_three))] 5
     = (Raised ValueError, [])
   \<and> call_gemini_api_debate API_KEY [Body (body_with_text (JStr payload_three))] 5
     = (Raised ValueError, [])"
  using shipped_key_raises_value_error
    [of sample_loads "[Body (body_with_text (JStr payload_three))]" 5]
  by simp

subsection \<open>Ending a debate\<close>

text \<open>
  Claim C9. \<^verbatim>\<open>end_debate\<close> always switches back to guided mode and resets the session:
  afterwards the debate turns and the history are empty, the current step is 1, and the
  pending result and the selection are cleared.
\<close>

theorem end_debate_full_reset:
  "is_debating (end_debate s) = False
   \<and> process_command (end_debate s) = ProcessInputThreaded
   \<and> debate_history (end_debate s) = []
   \<and> conversation_history (end_debate s) = []
   \<and> current_step (end_debate s) = 1
   \<and> current_step_data (end_debate s) = JNull
   \<and> selected_question (end_debate s) = JNull"
  by (simp add: end_debate_def set_gui_mode_def create_question_cards_def append_to_log_def
      set_input_text_def stop_loading_animation_def)

subsection \<open>Retry budget and backoff\<close>

lemma retry_trace5:
  "retry_trace 5 = [Post, Sleep 1, Post, Sleep 2, Post, Sleep 4, Post, Sleep 8, Post, Sleep 16]"
  by (simp add: retry_trace_def upt5)

lemma retry_trace_unfold:
  "retry_trace 0 = []"
  "retry_trace 1 = [Post, Sleep 1]"
  "retry_trace 2 = [Post, Sleep 1, Post, Sleep 2]"
  "retry_trace 3 = [Post, Sleep 1, Post, Sleep 2, Post, Sleep 4]"
  "retry_trace 4 = [Post, Sleep 1, Post, Sleep 2, Post, Sleep 4, Post, Sleep 8]"
  by (simp_all add: retry_trace_def upt_rec)

lemma structured_posts_le:
  "posts (snd (call_gemini_api_structured api_key loads rs n)) \<le> n"
  by (auto simp: call_gemini_api_structured_def structured_trace posts_append retry_trace_posts
      posts_Post posts_def[of "[]"] dest: first_attempt_not_bound split: option.splits)

lemma debate_posts_le:
  "posts (snd (call_gemini_api_debate api_key rs n)) \<le> n"
  by (auto simp: call_gemini_api_debate_def debate_trace posts_append retry_trace_posts
      posts_Post posts_def[of "[]"] dest: first_attempt_not_bound split: option.splits)

text \<open>
  Claim C7. Each client operation sends at most 5 requests in a call, and the wait
  after failed attempt number \<open>i\<close> (counted from 0) is \<open>2 ^ i\<close>. The trace of a call is
  exactly this: with no key nothing is sent; otherwise every attempt that is caught is a
  request followed by its wait, \<open>retry_trace k\<close> for the first \<open>k\<close> attempts, and the first
  attempt that is not caught is one more request, after which the call ends. When all 5
  attempts are caught the trace is request, wait 1, request, wait 2, request, wait 4,
  request, wait 8, request, wait 16.
\<close>

theorem backoff_is_powers_of_two:
  "snd (call_gemini_api_structured api_key loads rs 5) =
     (if api_key = [] then []
      else case first_attempt_not (structured_retried loads) rs 5 of
             None \<Rightarrow> retry_trace 5
           | Some k \<Rightarrow> retry_trace k @ [Post])
   \<and> snd (call_gemini_api_debate api_key rs 5) =
     (if api_key = [] then []
      else case first_attempt_not transient rs 5 of
             None \<Rightarrow> retry_trace 5
           | Some k \<Rightarrow> retry_trace k @ [Post])
   \<and> posts (snd (call_gemini_api_structured api_key loads rs 5)) \<le> 5
   \<and> posts (snd (call_gemini_api_debate api_key rs 5)) \<le> 5
   \<and> retry_trace 5
       = [Post, Sleep 1, Post, Sleep 2, Post, Sleep 4, Post, Sleep 8, Post, Sleep 16]
   \<and> retry_trace 2 = [Post, Sleep 1, Post, Sleep 2]"
  using structured_posts_le[of api_key loads rs 5] debate_posts_le[of api_key rs 5]
  by (simp add: call_gemini_api_structured_def call_gemini_api_debate_def structured_trace
      debate_trace retry_trace5 retry_trace_unfold)

lemma first_caught_twice:
  "first_attempt_not (structured_retried sample_loads)
     [ConnectionFailed, HttpError, Body (body_with_text (JStr payload_three))] 5 = Some 2"
  "first_attempt_not transient
     [ConnectionFailed, HttpError, Body (body_with_text (JStr payload_three))] 5 = Some 2"
  by (simp_all add: first_attempt_not_def upt5 structured_retried_def transient_def
      undecodable_def reply_def payload_of_def response_text_def body_with_text_def and_then_def
      sample_loads_def)

lemma first_caught_always:
  "first_attempt_not (structured_retried sample_loads) [] 5 = None"
  "first_attempt_not transient [] 5 = None"
  by (simp_all add: first_attempt_not_def upt5 structured_retried_def transient_def reply_def)

theorem backoff_is_powers_of_two_witness:
  "snd (call_gemini_api_structured ''key'' sample_loads [] 5)
     = [Post, Sleep 1, Post, Sleep 2, Post, Sleep 4, Post, Sleep 8, Post, Sleep 16]
   \<and> snd (call_gemini_api_debate ''key'' [] 5)
     = [Post, Sleep 1, Post, Sleep 2, Post, Sleep 4, Post, Sleep 8, Post, Sleep 16]
   \<and> snd (call_gemini_api_structured ''key'' sample_loads
          [ConnectionFailed, HttpError, Body (body_with_text (JStr payload_three))] 5)
     = [Post, Sleep 1, Post, Sleep 2, Post]
   \<and> snd (call_gemini_api_debate ''key''
          [ConnectionFailed, HttpError, Body (body_with_text (JStr payload_three))] 5)
     = [Post, Sleep 1, Post, Sleep 2, Post]"
  using backoff_is_powers_of_two[of "''key''" sample_loads "[]"]
    backoff_is_powers_of_two[of "''key''" sample_loads
      "[ConnectionFailed, HttpError, Body (body_with_text (JStr payload_three))]"]
    first_caught_twice first_caught_always
  by simp

subsection \<open>When a call returns null\<close>

lemma sample_loads_three: "sample_loads payload_three = Decoded result_three"
  by (simp add: sample_loads_def)

lemma sample_loads_two: "sample_loads payload_two = Decoded result_two"
  by (simp add: sample_loads_def payload_two_def payload_three_def)

lemma payload_three_nonempty: "payload_three \<noteq> []"
  by (simp add: payload_three_def)

lemma payload_two_nonempty: "payload_two \<noteq> []"
  by (simp add: payload_two_def)

lemma response_text_body_with_text: "response_text (body_with_text t) = Inr t"
  by (simp add: response_text_def body_with_text_def and_then_def)

lemma payload_of_body_with_text: "payload_of (Body (body_with_text t)) = Some t"
  by (simp add: payload_of_def response_text_body_with_text)

lemma response_text_empty_object: "response_text (JObj []) = Inr JNull"
  by (simp add: response_text_def and_then_def)

lemma structured_attempt_raised:
  "structured_attempt loads r = Finished (Raised e) \<longleftrightarrow> structured_escape loads r = Some e"
  by (cases r)
     (auto simp: structured_escape_def malformed_def payload_of_def
           split: sum.splits json.splits decoded.splits)

lemma debate_attempt_raised:
  "debate_attempt r = Finished (Raised e) \<longleftrightarrow> malformed r = Some e"
  by (cases r) (auto simp: malformed_def split: sum.splits)

lemma structured_raised_iff:
  assumes "api_key \<noteq> []"
  shows "fst (call_gemini_api_structured api_key loads rs n) = Raised e \<longleftrightarrow>
     (case first_attempt_not (structured_retried loads) rs n of
        None \<Rightarrow> False
      | Some k \<Rightarrow> structured_escape loads (reply rs k) = Some e)"
proof (cases "first_attempt_not (structured_retried loads) rs n")
  case None
  with assms show ?thesis by (simp add: structured_result)
next
  case (Some k)
  then have "structured_attempt loads (reply rs k) \<noteq> Caught"
    by (auto dest: first_attempt_not_Some simp: structured_attempt_Caught)
  with Some assms show ?thesis
    using structured_attempt_raised[of loads "reply rs k" e]
    by (auto simp: structured_result split: attempt.splits)
qed

lemma debate_raised_iff:
  assumes "api_key \<noteq> []"
  shows "fst (call_gemini_api_debate api_key rs n) = Raised e \<longleftrightarrow>
     (case first_attempt_not transient rs n of
        None \<Rightarrow> False
      | Some k \<Rightarrow> malformed (reply rs k) = Some e)"
proof (cases "first_attempt_not transient rs n")
  case None
  with assms show ?thesis by (simp add: debate_result)
next
  case (Some k)
  then have "debate_attempt (reply rs k) \<noteq> Caught"
    by (auto dest: first_attempt_not_Some simp: debate_attempt_Caught)
  with Some assms show ?thesis
    using debate_attempt_raised[of "reply rs k" e]
    by (auto simp: debate_result split: attempt.splits)
qed

text \<open>
  Claim C1, as the code has it. With a key configured and the budget of 5 attempts.
  A failed attempt of the specification is read as: a transport error, a non-success
  status, a body that is not JSON, or a body of the expected shape whose text is empty
  or, in the structured call, is not JSON. When every attempt fails so, the structured
  call returns null and the chat call returns a falsy value (null, or an empty text or
  another empty value, returned as it is), and no exception leaves the function. The
  converse fails, because an empty payload is not retried. Only a transport error, a
  non-success status and a body or payload that is not JSON are caught and retried; the
  first attempt that is not caught ends the call, after \<open>k + 1\<close> requests when it is
  attempt \<open>k\<close>. So the structured call returns null exactly when all 5 attempts were
  caught, or the first one that was not has an empty payload or a payload that decodes
  to null; the chat call returns null exactly when all 5 attempts were caught, or the
  first one that was not has no text. An exception leaves the function exactly when the
  first attempt that is not caught has a malformed reply (decoding its body raised
  something other than \<^verbatim>\<open>JSONDecodeError\<close>, or the body has not the expected shape), or,
  in the structured call, a text that is a non-empty value other than a string or on
  which \<^verbatim>\<open>json.loads\<close> raises something other than \<^verbatim>\<open>JSONDecodeError\<close>.
\<close>

theorem null_result_of_client:
  assumes "api_key \<noteq> []"
  shows
    "(attempts_all (structured_attempt_fails loads) rs 5 \<longrightarrow>
        fst (call_gemini_api_structured api_key loads rs 5) = Returned JNull)
     \<and> (fst (call_gemini_api_structured api_key loads rs 5) = Returned JNull \<longleftrightarrow>
          (case first_attempt_not (structured_retried loads) rs 5 of
             None \<Rightarrow> True
           | Some k \<Rightarrow> empty_payload (reply rs k) \<or> decodes_to_null loads (reply rs k)))
     \<and> (fst (call_gemini_api_structured api_key loads rs 5) = Raised e \<longleftrightarrow>
          (case first_attempt_not (structured_retried loads) rs 5 of
             None \<Rightarrow> False
           | Some k \<Rightarrow> structured_escape loads (reply rs k) = Some e))
     \<and> posts (snd (call_gemini_api_structured api_key loads rs 5)) =
          (case first_attempt_not (structured_retried loads) rs 5 of
             None \<Rightarrow> 5 | Some k \<Rightarrow> k + 1)
     \<and> (attempts_all chat_attempt_fails rs 5 \<longrightarrow>
          (\<exists>v. fst (call_gemini_api_debate api_key rs 5) = Returned v \<and> \<not> py_truthy v))
     \<and> (fst (call_gemini_api_debate api_key rs 5) = Returned JNull \<longleftrightarrow>
          (case first_attempt_not transient rs 5 of
             None \<Rightarrow> True
           | Some k \<Rightarrow> payload_of (reply rs k) = Some JNull))
     \<and> (fst (call_gemini_api_debate api_key rs 5) = Raised e \<longleftrightarrow>
          (case first_attempt_not transient rs 5 of
             None \<Rightarrow> False
           | Some k \<Rightarrow> malformed (reply rs k) = Some e))
     \<and> posts (snd (call_gemini_api_debate api_key rs 5)) =
          (case first_attempt_not transient rs 5 of
             None \<Rightarrow> 5 | Some k \<Rightarrow> k + 1)"
  using assms structured_all_fail_null[of api_key loads rs 5]
    structured_null_iff[of api_key loads rs 5] structured_posts[of api_key loads rs 5]
    structured_raised_iff[of api_key loads rs 5 e]
    debate_all_fail_falsy[of api_key rs 5] debate_null_iff[of api_key rs 5]
    debate_posts[of api_key rs 5] debate_raised_iff[of api_key rs 5 e]
  by blast

lemma first_not_retried_empty_then_good:
  "first_attempt_not (structured_retried sample_loads) empty_then_good 5 = Some 0"
  by (simp add: first_attempt_not_def upt5 structured_retried_def transient_def
      undecodable_def reply_def empty_then_good_def payload_of_body_with_text)

lemma first_not_transient_missing_then_good:
  "first_attempt_not transient missing_then_good 5 = Some 0"
  by (simp add: first_attempt_not_def upt5 transient_def reply_def missing_then_good_def)

lemma all_fail_nil:
  "attempts_all (structured_attempt_fails sample_loads) [] 5"
  "attempts_all chat_attempt_fails [] 5"
  by (simp_all add: attempts_all_def list_all_iff reply_def structured_attempt_fails_def
      chat_attempt_fails_def transient_def)

lemma first_not_nil:
  "first_attempt_not (structured_retried sample_loads) [] 5 = None"
  "first_attempt_not transient [] 5 = None"
  by (simp_all add: first_attempt_not_None attempts_all_def list_all_iff reply_def
      structured_retried_def transient_def)

lemma no_candidates_raises:
  "first_attempt_not (structured_retried sample_loads) no_candidates 5 = Some 0"
  "first_attempt_not transient no_candidates 5 = Some 0"
  "structured_escape sample_loads (reply no_candidates 0) = Some IndexError"
  "malformed (reply no_candidates 0) = Some IndexError"
  by (simp_all add: first_attempt_not_def upt5 structured_retried_def transient_def
      undecodable_def structured_escape_def malformed_def payload_of_def reply_def
      no_candidates_def response_text_def and_then_def)

theorem null_result_of_client_witness:
  "fst (call_gemini_api_structured ''key'' sample_loads [] 5) = Returned JNull
   \<and> posts (snd (call_gemini_api_structured ''key'' sample_loads [] 5)) = 5
   \<and> (\<exists>v. fst (call_gemini_api_debate ''key'' [] 5) = Returned v \<and> \<not> py_truthy v)
   \<and> posts (snd (call_gemini_api_debate ''key'' [] 5)) = 5
   \<and> posts (snd (call_gemini_api_structured ''key'' sample_loads empty_then_good 5)) = 1
   \<and> posts (snd (call_gemini_api_debate ''key'' missing_then_good 5)) = 1
   \<and> fst (call_gemini_api_structured ''key'' sample_loads no_candidates 5) = Raised IndexError
   \<and> fst (call_gemini_api_debate ''key'' no_candidates 5) = Raised IndexError"
proof -
  have k: "''key'' \<noteq> []" by simp
  show ?thesis
    using null_result_of_client[OF k, of sample_loads "[]" IndexError]
      null_result_of_client[OF k, of sample_loads empty_then_good IndexError]
      null_result_of_client[OF k, of sample_loads missing_then_good IndexError]
      null_result_of_client[OF k, of sample_loads no_candidates IndexError]
      no_candidates_raises
      all_fail_nil first_not_nil first_not_retried_empty_then_good
      first_not_transient_missing_then_good
    by simp
qed

text \<open>
  The claim as written fails: a first reply with an empty payload ends the call with null
  after one request, although the second reply would have been a good answer, so not
  all 5 attempts fail; the attempt was not retried.
\<close>

theorem null_after_one_attempt:
  "fst (call_gemini_api_structured ''key'' sample_loads empty_then_good 5) = Returned JNull
   \<and> snd (call_gemini_api_structured ''key'' sample_loads empty_then_good 5) = [Post]
   \<and> \<not> attempts_all (structured_attempt_fails sample_loads) empty_then_good 5
   \<and> fst (call_gemini_api_debate ''key'' missing_then_good 5) = Returned JNull
   \<and> snd (call_gemini_api_debate ''key'' missing_then_good 5) = [Post]
   \<and> \<not> attempts_all chat_attempt_fails missing_then_good 5"
proof -
  have a: "call_gemini_api_structured ''key'' sample_loads empty_then_good 5 = (Returned JNull, [Post])"
    by (simp add: call_gemini_api_structured_def upt5 reply_def empty_then_good_def
        response_text_body_with_text)
  have b: "call_gemini_api_debate ''key'' missing_then_good 5 = (Returned JNull, [Post])"
    by (simp add: call_gemini_api_debate_def upt5 reply_def missing_then_good_def
        response_text_empty_object)
  have c: "\<not> structured_attempt_fails sample_loads (reply empty_then_good 1)"
    by (simp add: structured_attempt_fails_def transient_def empty_payload_def undecodable_def
        reply_def empty_then_good_def payload_of_body_with_text sample_loads_three
        payload_three_nonempty)
  have d: "\<not> chat_attempt_fails (reply missing_then_good 1)"
    by (simp add: chat_attempt_fails_def transient_def empty_payload_def
        reply_def missing_then_good_def payload_of_body_with_text)
  from c have c': "\<not> attempts_all (structured_attempt_fails sample_loads) empty_then_good 5"
    by (auto dest: attempts_allD[where k = 1])
  from d have d': "\<not> attempts_all chat_attempt_fails missing_then_good 5"
    by (auto dest: attempts_allD[where k = 1])
  from a b c' d' show ?thesis by simp
qed

subsection \<open>What the client accepts as a structured result\<close>

lemma structured_attempt_decoded:
  "payload_of r = Some (JStr s) \<Longrightarrow> s \<noteq> [] \<Longrightarrow> loads s = Decoded v \<Longrightarrow>
   structured_attempt loads r = Finished (Returned v)"
  by (cases r) (auto simp: payload_of_def split: sum.splits)

lemma structured_call_decoded:
  assumes "api_key \<noteq> []" "payload_of r = Some (JStr s)" "s \<noteq> []" "loads s = Decoded v"
  shows "call_gemini_api_structured api_key loads (r # rs) 5 = (Returned v, [Post])"
  using assms(1) structured_attempt_decoded[of r s loads v] assms(2-4)
  by (simp add: call_gemini_api_structured_def upt5 reply_def)

lemma update_guided_result_questions:
  "current_step_data
     (update_guided_result raw (JObj [(''corrected_text'', t), (''challenge_questions'', JArr qs)]) st)
     = JObj [(''corrected_text'', t), (''challenge_questions'', JArr qs)]"
  "question_widgets
     (update_guided_result raw (JObj [(''corrected_text'', t), (''challenge_questions'', JArr qs)]) st)
     = qs"
  by (simp_all add: update_guided_result_def create_question_cards_def set_input_text_def
      stop_loading_animation_def set_buttons_state_def append_to_log_def Let_def)

text \<open>
  Claim C2, as the code has it. The client returns whatever the payload text decodes
  to and counts nothing: when the first reply carries a non-empty text that decodes to an
  object with a corrected text and a list \<open>qs\<close> of challenge questions, of any length,
  the call returns that object after one request, the worker hands it on as the result,
  and the application keeps it as the pending result and builds one card for each
  question of \<open>qs\<close>. The number three appears only in the schema and the instruction
  sent to the provider.
\<close>

theorem question_count_is_not_checked:
  assumes "api_key \<noteq> []"
    and "payload_of r = Some (JStr s)" and "s \<noteq> []"
    and "loads s = Decoded (JObj [(''corrected_text'', t), (''challenge_questions'', JArr qs)])"
  shows
    "call_gemini_api_structured api_key loads (r # rs) 5
       = (Returned (JObj [(''corrected_text'', t), (''challenge_questions'', JArr qs)]), [Post])
     \<and> run_thought_processing api_key loads (r # rs) raw st
       = st\<lparr>scheduled := scheduled st @
            [UpdateGuidedResult raw
               (JObj [(''corrected_text'', t), (''challenge_questions'', JArr qs)])]\<rparr>
     \<and> current_step_data
         (update_guided_result raw
            (JObj [(''corrected_text'', t), (''challenge_questions'', JArr qs)]) st)
       = JObj [(''corrected_text'', t), (''challenge_questions'', JArr qs)]
     \<and> question_widgets
         (update_guided_result raw
            (JObj [(''corrected_text'', t), (''challenge_questions'', JArr qs)]) st)
       = qs"
proof -
  have c: "call_gemini_api_structured api_key loads (r # rs) 5
       = (Returned (JObj [(''corrected_text'', t), (''challenge_questions'', JArr qs)]), [Post])"
    using assms by (rule structured_call_decoded)
  then have w: "run_thought_processing api_key loads (r # rs) raw st
       = st\<lparr>scheduled := scheduled st @
            [UpdateGuidedResult raw
               (JObj [(''corrected_text'', t), (''challenge_questions'', JArr qs)])]\<rparr>"
    by (simp add: run_thought_processing_def MAX_RETRIES_def)
  from c w update_guided_result_questions[of raw t qs st] show ?thesis by simp
qed

theorem question_count_is_not_checked_witness:
  "call_gemini_api_structured ''key'' sample_loads [Body (body_with_text (JStr payload_two))] 5
     = (Returned (JObj [(''corrected_text'', JStr ''X''),
                        (''challenge_questions'', JArr [JStr ''q1'', JStr ''q2''])]), [Post])
   \<and> question_widgets
       (update_guided_result ''X?''
          (JObj [(''corrected_text'', JStr ''X''),
                 (''challenge_questions'', JArr [JStr ''q1'', JStr ''q2''])]) init)
     = [JStr ''q1'', JStr ''q2'']"
proof -
  have k: "''key'' \<noteq> []" by simp
  have l: "sample_loads payload_two
     = Decoded (JObj [(''corrected_text'', JStr ''X''),
                      (''challenge_questions'', JArr [JStr ''q1'', JStr ''q2''])])"
    by (simp add: sample_loads_two result_two_def)
  have p: "payload_of (Body (body_with_text (JStr payload_two))) = Some (JStr payload_two)"
    by (rule payload_of_body_with_text)
  show ?thesis
    using question_count_is_not_checked
      [where api_key = "''key''" and r = "Body (body_with_text (JStr payload_two))"
         and s = payload_two and loads = sample_loads and t = "JStr ''X''"
         and qs = "[JStr ''q1'', JStr ''q2'']" and rs = "[]" and raw = "''X?''" and st = init]
      k p payload_two_nonempty l
    by simp
qed

text \<open>
  The claim as written fails: a payload with two questions is not a failed attempt. The
  call returns it, and it becomes the pending result with two cards and no error shown.
\<close>

theorem two_questions_accepted:
  "fst (call_gemini_api_structured ''key'' sample_loads
          [Body (body_with_text (JStr payload_two))] 5) = Returned result_two
   \<and> current_step_data (run_events ''key'' sample_loads two_questions_processed init) = result_two
   \<and> question_widgets (run_events ''key'' sample_loads two_questions_processed init)
       = [JStr ''q1'', JStr ''q2'']
   \<and> dialogs (run_events ''key'' sample_loads two_questions_processed init) = []"
  by code_simp

subsection \<open>A debate turn without a reply\<close>

text \<open>
  Claim C3, as the code has it. When the chat call of a debate turn returns no reply
  (null after the retries are exhausted, or an empty text), the worker puts a fixed
  sentence in its place and appends it to the debate turns as the assistant's turn,
  after the user's turn, which is kept; the sentence is then shown in the log as the
  opponent's reply, and no message box reports a failure.
\<close>

theorem empty_reply_becomes_assistant_turn:
  assumes "fst (call_gemini_api_debate api_key rs MAX_RETRIES) = Returned v"
    and "\<not> py_truthy v"
  shows
    "run_debate_turn api_key rs s
       = s\<lparr>debate_history := debate_history s @
              [\<lparr>role = ''assistant'',
                turn_text = JStr ''AI failed to generate a rebuttal after multiple retries. Try ending and restarting the debate.''\<rparr>],
            scheduled := scheduled s @
              [UpdateDebateUI (JStr ''AI failed to generate a rebuttal after multiple retries. Try ending and restarting the debate.'')]\<rparr>
     \<and> dialogs (update_debate_ui a s) = dialogs s
     \<and> conversation_log (update_debate_ui a s) = conversation_log s @ [(DEBATE, [Val a])]"
  using assms
  by (simp add: run_debate_turn_def update_debate_ui_def stop_loading_animation_def
      append_to_log_def set_input_text_def set_buttons_state_def Let_def)

lemma debate_call_nil: "call_gemini_api_debate ''key'' [] MAX_RETRIES
   = (Returned JNull, retry_trace 5)"
  by (simp add: call_gemini_api_debate_def MAX_RETRIES_def upt5 reply_def retry_trace_def)

theorem empty_reply_becomes_assistant_turn_witness:
  "debate_history (run_debate_turn ''key'' [] init)
     = [\<lparr>role = ''assistant'',
         turn_text = JStr ''AI failed to generate a rebuttal after multiple retries. Try ending and restarting the debate.''\<rparr>]"
proof -
  have c: "fst (call_gemini_api_debate ''key'' [] MAX_RETRIES) = Returned JNull"
    by (simp add: debate_call_nil)
  have f: "\<not> py_truthy JNull" by simp
  show ?thesis
    using empty_reply_becomes_assistant_turn[OF c f, of init]
    by (simp add: init_def)
qed

text \<open>
  The claim as written fails: after a rebuttal whose chat call meets five failed
  attempts and returns null, the debate turns are not as they were before the call. An
  assistant turn has been added, and no failure was reported.
\<close>

theorem failed_turn_adds_assistant_turn:
  "map role (debate_history (run_events ''key'' sample_loads rebuttal_sent init))
     = [''user'', ''assistant'', ''user'']
   \<and> fst (call_gemini_api_debate ''key'' [] 5) = Returned JNull
   \<and> map role (debate_history
        (run_events ''key'' sample_loads (rebuttal_sent @ [WorkerRuns 0 []]) init))
     = [''user'', ''assistant'', ''user'', ''assistant'']
   \<and> dialogs (run_events ''key'' sample_loads
        (rebuttal_sent @ [WorkerRuns 0 [], CallbackRuns 0 True]) init) = []"
  by code_simp

subsection \<open>Confirming a focus\<close>

text \<open>
  Claim C4. \<^verbatim>\<open>confirm_focus\<close> needs a pending result and a selected question. When
  either is missing it only shows the warning: history, current step and pending result
  are as before. When both are there it appends the step (the current step number, the
  corrected text of the pending result, the selected question) to the history,
  increments the current step, and clears the pending result and the selection.
\<close>

theorem confirm_focus_contract:
  "(\<not> py_truthy (selected_question s) \<or> \<not> py_truthy (current_step_data s) \<longrightarrow>
      confirm_focus s
        = show_dialog (ShowWarning ''Incomplete Data''
            ''Please process a thought and select a challenge question before continuing.'') s
      \<and> conversation_history (confirm_focus s) = conversation_history s
      \<and> current_step (confirm_focus s) = current_step s
      \<and> current_step_data (confirm_focus s) = current_step_data s)
   \<and> (py_truthy (selected_question s) \<and> current_step_data s = JObj kvs
        \<and> map_of kvs ''corrected_text'' = Some t \<longrightarrow>
      conversation_history (confirm_focus s)
        = conversation_history s @
            [\<lparr>step = current_step s, thought = t, focus_question = selected_question s\<rparr>]
      \<and> current_step (confirm_focus s) = current_step s + 1
      \<and> current_step_data (confirm_focus s) = JNull
      \<and> selected_question (confirm_focus s) = JNull)"
proof -
  have a: "\<not> py_truthy (selected_question s) \<or> \<not> py_truthy (current_step_data s) \<Longrightarrow>
      confirm_focus s
        = show_dialog (ShowWarning ''Incomplete Data''
            ''Please process a thought and select a challenge question before continuing.'') s"
    by (auto simp: confirm_focus_def)
  have b: "py_truthy (selected_question s) \<Longrightarrow> current_step_data s = JObj kvs \<Longrightarrow>
      map_of kvs ''corrected_text'' = Some t \<Longrightarrow>
      conversation_history (confirm_focus s)
        = conversation_history s @
            [\<lparr>step = current_step s, thought = t, focus_question = selected_question s\<rparr>]
      \<and> current_step (confirm_focus s) = current_step s + 1
      \<and> current_step_data (confirm_focus s) = JNull
      \<and> selected_question (confirm_focus s) = JNull"
    by (auto simp: confirm_focus_def Let_def append_to_log_def set_input_text_def
        stop_loading_animation_def)
  from a b show ?thesis by (auto simp: show_dialog_def)
qed

lemma thought_processed_state:
  "selected_question (run_events ''key'' sample_loads thought_processed init) = JNull"
  "selected_question (run_events ''key'' sample_loads (thought_processed @ [ClickCard 1]) init)
     = JStr ''q2''"
  "current_step_data (run_events ''key'' sample_loads (thought_processed @ [ClickCard 1]) init)
     = JObj [(''corrected_text'', JStr ''People should work fewer hours.''),
             (''challenge_questions'', JArr [JStr ''q1'', JStr ''q2'', JStr ''q3''])]"
  "current_step (run_events ''key'' sample_loads (thought_processed @ [ClickCard 1]) init) = 1"
  "conversation_history (run_events ''key'' sample_loads (thought_processed @ [ClickCard 1]) init) = []"
  by code_simp+

theorem confirm_focus_contract_witness:
  "conversation_history
     (confirm_focus (run_events ''key'' sample_loads thought_processed init)) = 
     conversation_history (run_events ''key'' sample_loads thought_processed init)
   \<and> conversation_history
       (confirm_focus (run_events ''key'' sample_loads (thought_processed @ [ClickCard 1]) init))
     = [\<lparr>step = 1, thought = JStr ''People should work fewer hours.'',
         focus_question = JStr ''q2''\<rparr>]
   \<and> current_step
       (confirm_focus (run_events ''key'' sample_loads (thought_processed @ [ClickCard 1]) init))
     = 2"
  using confirm_focus_contract
      [of "run_events ''key'' sample_loads thought_processed init"]
    confirm_focus_contract
      [of "run_events ''key'' sample_loads (thought_processed @ [ClickCard 1]) init"
          "[(''corrected_text'', JStr ''People should work fewer hours.''),
            (''challenge_questions'', JArr [JStr ''q1'', JStr ''q2'', JStr ''q3''])]"
          "JStr ''People should work fewer hours.''"]
    thought_processed_state
  by (simp add: show_dialog_def)

subsection \<open>The current step counts the history\<close>

lemma sch_simple [simp]:
  "step_counts_history (append_to_log w m s) = step_counts_history s"
  "step_counts_history (show_dialog d s) = step_counts_history s"
  "step_counts_history (report_exception e s) = step_counts_history s"
  "step_counts_history (set_input_text t s) = step_counts_history s"
  "step_counts_history (set_buttons_state b s) = step_counts_history s"
  "step_counts_history (start_loading_animation s) = step_counts_history s"
  "step_counts_history (stop_loading_animation s) = step_counts_history s"
  "step_counts_history (select_question q s) = step_counts_history s"
  "step_counts_history (record_input_toggle s) = step_counts_history s"
  "step_counts_history (speech_callback r s) = step_counts_history s"
  by (simp_all add: step_counts_history_def append_to_log_def show_dialog_def
      report_exception_def set_input_text_def set_buttons_state_def
      start_loading_animation_def stop_loading_animation_def select_question_def
      record_input_toggle_def speech_callback_def Let_def)

lemma sch_updates [simp]:
  "step_counts_history (s\<lparr>workers := ws\<rparr>) = step_counts_history s"
  "step_counts_history (s\<lparr>scheduled := cs\<rparr>) = step_counts_history s"
  "step_counts_history (s\<lparr>debate_history := dh\<rparr>) = step_counts_history s"
  by (simp_all add: step_counts_history_def)

lemma sch_create_question_cards [simp]:
  "step_counts_history (snd (create_question_cards qs s)) = step_counts_history s"
  by (simp add: step_counts_history_def create_question_cards_def Let_def split: sum.splits)

lemma sch_confirm_focus:
  "step_counts_history s \<Longrightarrow> step_counts_history (confirm_focus s)"
  by (simp add: confirm_focus_def Let_def split: sum.splits)
     (simp add: step_counts_history_def append_to_log_def set_input_text_def
       stop_loading_animation_def)

lemma sch_process_input_threaded [simp]:
  "step_counts_history (process_input_threaded s) = step_counts_history s"
  by (simp add: process_input_threaded_def Let_def)

lemma sch_run_thought_processing [simp]:
  "step_counts_history (run_thought_processing k l rs raw s) = step_counts_history s"
  by (simp add: run_thought_processing_def split: outcome.splits exn.splits)

lemma sch_update_guided_result [simp]:
  "step_counts_history (update_guided_result raw result s) = step_counts_history s"
proof -
  have a: "\<And>s. step_counts_history (s\<lparr>current_step_data := result\<rparr>) = step_counts_history s"
    by (simp add: step_counts_history_def)
  have b: "\<And>s p d bl. step_counts_history
       (s\<lparr>process_enabled := p, debate_enabled := d, blog_enabled := bl\<rparr>) = step_counts_history s"
    by (simp add: step_counts_history_def)
  have c: "\<And>qs s e s4. create_question_cards qs s = (e, s4) \<Longrightarrow>
       step_counts_history s4 = step_counts_history s"
    using sch_create_question_cards by (metis snd_conv)
  show ?thesis
    by (auto simp: update_guided_result_def Let_def a b dest!: c
        split: sum.splits prod.splits option.splits)
qed

lemma sch_handle_error [simp]:
  "step_counts_history (handle_error m s) = step_counts_history s"
  by (simp add: handle_error_def Let_def)

lemma sch_set_gui_mode [simp]:
  "step_counts_history (set_gui_mode m s) = step_counts_history s"
proof (cases m)
  case GUIDED
  have "step_counts_history (s\<lparr>is_debating := False, process_command := ProcessInputThreaded,
          debate_command := StartDebateMode, debate_enabled := False,
          questions_shown := True, action_frame_shown := True\<rparr>) = step_counts_history s"
    by (simp add: step_counts_history_def)
  with GUIDED show ?thesis by (simp add: set_gui_mode_def Let_def)
next
  case DEBATE_MODE
  then show ?thesis by (simp add: set_gui_mode_def step_counts_history_def)
qed

lemma sch_generate_blog_post_threaded [simp]:
  "step_counts_history (generate_blog_post_threaded s) = step_counts_history s"
  by (simp add: generate_blog_post_threaded_def Let_def split: sum.splits)

lemma sch_run_blog_post_generation [simp]:
  "step_counts_history (run_blog_post_generation k rs s) = step_counts_history s"
  by (simp add: run_blog_post_generation_def split: sum.splits outcome.splits exn.splits)

lemma sch_show_blog_post_window [simp]:
  "step_counts_history (show_blog_post_window c s) = step_counts_history s"
  by (simp add: show_blog_post_window_def Let_def)

lemma sch_send_rebuttal_threaded [simp]:
  "step_counts_history (send_rebuttal_threaded s) = step_counts_history s"
  by (simp add: send_rebuttal_threaded_def Let_def)

lemma sch_start_debate_mode [simp]:
  "step_counts_history (start_debate_mode s) = step_counts_history s"
  by (simp add: start_debate_mode_def Let_def split: sum.splits)

lemma sch_end_debate: "step_counts_history (end_debate s)"
  by (simp add: step_counts_history_def end_debate_def set_gui_mode_def
      create_question_cards_def append_to_log_def set_input_text_def
      stop_loading_animation_def)

lemma sch_run_debate_turn [simp]:
  "step_counts_history (run_debate_turn k rs s) = step_counts_history s"
  by (simp add: run_debate_turn_def Let_def split: sum.splits outcome.splits exn.splits prod.splits)

lemma sch_update_debate_ui [simp]:
  "step_counts_history (update_debate_ui a s) = step_counts_history s"
proof -
  have "\<And>s c d. step_counts_history (s\<lparr>debate_command := c, debate_enabled := d\<rparr>)
      = step_counts_history s"
    by (simp add: step_counts_history_def)
  then show ?thesis by (simp add: update_debate_ui_def Let_def)
qed

lemma sch_process_transcription_from_queue [simp]:
  "step_counts_history (process_transcription_from_queue s) = step_counts_history s"
proof -
  have a: "\<And>s p. step_counts_history (s\<lparr>process_enabled := p\<rparr>) = step_counts_history s"
    by (simp add: step_counts_history_def)
  have b: "\<And>s q. step_counts_history (s\<lparr>audio_queue := q\<rparr>) = step_counts_history s"
    by (simp add: step_counts_history_def)
  show ?thesis
    by (simp add: process_transcription_from_queue_def Let_def a b
        split: list.splits stt_result.splits)
qed

lemma sch_run_command:
  "step_counts_history s \<Longrightarrow> step_counts_history (run_command c s)"
  by (cases c) (simp_all add: run_command_def sch_end_debate)

lemma sch_run_worker [simp]:
  "step_counts_history (run_worker k l rs w s) = step_counts_history s"
  by (cases w) (simp_all add: run_worker_def)

lemma sch_run_callback [simp]:
  "step_counts_history (run_callback b c s) = step_counts_history s"
  by (cases c) (simp_all add: run_callback_def)

lemma sch_handle_event:
  "step_counts_history s \<Longrightarrow> step_counts_history (handle_event k l ev s)"
  by (cases ev) (simp_all add: handle_event_def sch_run_command sch_confirm_focus)

lemma sch_run_events:
  "step_counts_history s \<Longrightarrow> step_counts_history (run_events k l evs s)"
  by (induction evs arbitrary: s) (simp_all add: sch_handle_event)

lemma sch_init: "step_counts_history init"
  by (simp add: step_counts_history_def init_def)

text \<open>
  Claim C5. In every state the application reaches from its start, whatever the events
  and the provider's replies, the current step is the length of the history plus one;
  so it is in particular whenever no result is pending. Every event keeps it so.
\<close>

theorem current_step_counts_history:
  "step_counts_history (run_events api_key loads evs init)
   \<and> (current_step_data (run_events api_key loads evs init) = JNull \<longrightarrow>
        current_step (run_events api_key loads evs init)
          = int (length (conversation_history (run_events api_key loads evs init))) + 1)
   \<and> (step_counts_history s \<longrightarrow> step_counts_history (handle_event api_key loads ev s))"
  using sch_run_events[OF sch_init, of api_key loads evs] sch_handle_event[of s api_key loads ev]
  by (simp add: step_counts_history_def)

lemma focus_confirmed_state:
  "current_step_data (run_events ''key'' sample_loads focus_confirmed init) = JNull"
  "conversation_history (run_events ''key'' sample_loads focus_confirmed init)
     = [\<lparr>step = 1, thought = JStr ''People should work fewer hours.'',
         focus_question = JStr ''q2''\<rparr>]"
  by code_simp+

theorem current_step_counts_history_witness:
  "current_step_data (run_events ''key'' sample_loads focus_confirmed init) = JNull
   \<and> length (conversation_history (run_events ''key'' sample_loads focus_confirmed init)) = 1
   \<and> current_step (run_events ''key'' sample_loads focus_confirmed init) = 2
   \<and> step_counts_history (handle_event ''key'' sample_loads ClickConfirm init)"
  using current_step_counts_history[of "''key''" sample_loads focus_confirmed init ClickConfirm]
    focus_confirmed_state sch_init
  by simp

subsection \<open>Starting a debate\<close>

text \<open>
  Claim C6, as the code has it. \<^verbatim>\<open>start_debate_mode\<close> takes the opening argument from
  the pending result only. Without a pending result it shows the warning and changes
  nothing else, whatever the history holds; so it does when the pending result has no
  corrected text, an empty one, or the text \<^verbatim>\<open>N/A\<close>. Otherwise it switches to debate
  mode, makes that text the single user turn of the debate, and starts the worker for
  the first turn of the opponent.
\<close>

theorem start_debate_contract:
  "(\<not> py_truthy (current_step_data s) \<longrightarrow>
      start_debate_mode s
        = show_dialog (ShowWarning ''No Argument''
            ''Please process a thought first and ensure the corrected output is not empty before starting a debate.'') s)
   \<and> (current_step_data s = JObj kvs \<and> kvs \<noteq> []
        \<and> (case map_of kvs ''corrected_text'' of
              None \<Rightarrow> True
            | Some t \<Rightarrow> \<not> py_truthy t \<or> t = JStr ''N/A'') \<longrightarrow>
      start_debate_mode s
        = show_dialog (ShowWarning ''No Argument''
            ''Please process a thought first and ensure the corrected output is not empty before starting a debate.'') s)
   \<and> (current_step_data s = JObj kvs \<and> map_of kvs ''corrected_text'' = Some t
        \<and> py_truthy t \<and> t \<noteq> JStr ''N/A'' \<longrightarrow>
      is_debating (start_debate_mode s)
      \<and> process_command (start_debate_mode s) = SendRebuttalThreaded
      \<and> debate_history (start_debate_mode s) = [\<lparr>role = ''user'', turn_text = t\<rparr>]
      \<and> workers (start_debate_mode s) = workers s @ [RunDebateTurn])"
proof -
  have a: "\<not> py_truthy (current_step_data s) \<Longrightarrow>
      start_debate_mode s
        = show_dialog (ShowWarning ''No Argument''
            ''Please process a thought first and ensure the corrected output is not empty before starting a debate.'') s"
    by (simp add: start_debate_mode_def)
  have b: "current_step_data s = JObj kvs \<Longrightarrow> kvs \<noteq> [] \<Longrightarrow>
      (case map_of kvs ''corrected_text'' of
         None \<Rightarrow> True
       | Some t \<Rightarrow> \<not> py_truthy t \<or> t = JStr ''N/A'') \<Longrightarrow>
      start_debate_mode s
        = show_dialog (ShowWarning ''No Argument''
            ''Please process a thought first and ensure the corrected output is not empty before starting a debate.'') s"
    by (auto simp: start_debate_mode_def split: option.splits)
  have c: "current_step_data s = JObj kvs \<Longrightarrow> map_of kvs ''corrected_text'' = Some t \<Longrightarrow>
      py_truthy t \<Longrightarrow> t \<noteq> JStr ''N/A'' \<Longrightarrow>
      is_debating (start_debate_mode s)
      \<and> process_command (start_debate_mode s) = SendRebuttalThreaded
      \<and> debate_history (start_debate_mode s) = [\<lparr>role = ''user'', turn_text = t\<rparr>]
      \<and> workers (start_debate_mode s) = workers s @ [RunDebateTurn]"
    by (auto simp: start_debate_mode_def Let_def set_gui_mode_def append_to_log_def
        set_input_text_def send_rebuttal_threaded_def set_buttons_state_def
        start_loading_animation_def)
  from a b c show ?thesis by blast
qed

lemma pending_after_thought:
  "current_step_data (run_events ''key'' sample_loads thought_processed init)
     = JObj [(''corrected_text'', JStr ''People should work fewer hours.''),
             (''challenge_questions'', JArr [JStr ''q1'', JStr ''q2'', JStr ''q3''])]"
  by code_simp

theorem start_debate_contract_witness:
  "dialogs (start_debate_mode init)
     = [ShowWarning ''No Argument''
          ''Please process a thought first and ensure the corrected output is not empty before starting a debate.'']
   \<and> is_debating (start_debate_mode (run_events ''key'' sample_loads thought_processed init))
   \<and> debate_history (start_debate_mode (run_events ''key'' sample_loads thought_processed init))
       = [\<lparr>role = ''user'', turn_text = JStr ''People should work fewer hours.''\<rparr>]"
  using start_debate_contract[of init]
    start_debate_contract
      [of "run_events ''key'' sample_loads thought_processed init"
          "[(''corrected_text'', JStr ''People should work fewer hours.''),
            (''challenge_questions'', JArr [JStr ''q1'', JStr ''q2'', JStr ''q3''])]"
          "JStr ''People should work fewer hours.''"]
    pending_after_thought
  by (simp add: init_def show_dialog_def)

text \<open>
  The claim as written fails: after a step has been confirmed no result is pending, and
  \<^verbatim>\<open>start_debate_mode\<close> shows the warning although the confirmed step has a text; no
  debate starts.
\<close>

theorem no_debate_on_confirmed_step:
  "conversation_history (run_events ''key'' sample_loads focus_confirmed init)
     = [\<lparr>step = 1, thought = JStr ''People should work fewer hours.'',
         focus_question = JStr ''q2''\<rparr>]
   \<and> current_step_data (run_events ''key'' sample_loads focus_confirmed init) = JNull
   \<and> is_debating (start_debate_mode (run_events ''key'' sample_loads focus_confirmed init)) = False
   \<and> debate_history (start_debate_mode (run_events ''key'' sample_loads focus_confirmed init)) = []
   \<and> workers (start_debate_mode (run_events ''key'' sample_loads focus_confirmed init)) = []
   \<and> dialogs (start_debate_mode (run_events ''key'' sample_loads focus_confirmed init))
       = [ShowWarning ''No Argument''
            ''Please process a thought first and ensure the corrected output is not empty before starting a debate.'']"
  by code_simp

subsection \<open>Alternation of the debate turns\<close>

text \<open>
  Without dictation the debate turns alternate: every event other than a dictated phrase
  keeps a state orderly, so in every state of a run in which the user only types and
  clicks the turns alternate, beginning with the user's.
\<close>

lemma orderly_init: "orderly init"
  by (simp add: orderly_def init_def jobs_def alternates_def)

lemma alternates_from_snoc:
  "r = ''user'' \<or> r = ''assistant'' \<Longrightarrow>
   alternates_from r (xs @ [t]) =
     (alternates_from r xs
      \<and> role t = (if even (length xs) = (r = ''user'') then ''user'' else ''assistant''))"
  by (induction xs arbitrary: r) auto

lemma alternates_from_last:
  "r = ''user'' \<or> r = ''assistant'' \<Longrightarrow> alternates_from r xs \<Longrightarrow> xs \<noteq> [] \<Longrightarrow>
   role (last xs) = (if odd (length xs) = (r = ''user'') then ''user'' else ''assistant'')"
proof (induction xs arbitrary: r)
  case Nil
  then show ?case by simp
next
  case (Cons x xs)
  show ?case
  proof (cases "xs = []")
    case True
    with Cons.prems show ?thesis by auto
  next
    case False
    from Cons.prems have "alternates_from (if r = ''user'' then ''assistant'' else ''user'') xs"
      by simp
    moreover have "(if r = ''user'' then ''assistant'' else ''user'') = ''user''
        \<or> (if r = ''user'' then ''assistant'' else ''user'') = ''assistant''"
      by simp
    ultimately have "role (last xs) =
        (if odd (length xs) = ((if r = ''user'' then ''assistant'' else ''user'') = ''user'')
         then ''user'' else ''assistant'')"
      using False by (intro Cons.IH)
    with False show ?thesis
      by (cases "r = ''user''") simp_all
  qed
qed

lemma alternates_snoc_assistant:
  "alternates ts \<Longrightarrow> last_role ts = ''user'' \<Longrightarrow>
   alternates (ts @ [\<lparr>role = ''assistant'', turn_text = a\<rparr>])"
proof -
  assume a: "alternates ts" and l: "last_role ts = ''user''"
  from l have ne: "ts \<noteq> []" by (auto simp: last_role_def)
  from a have "alternates_from ''user'' ts" by (simp add: alternates_def)
  from alternates_from_last[OF _ this ne] l ne have "odd (length ts)"
    by (simp add: last_role_def split: if_splits)
  with a show ?thesis by (simp add: alternates_def alternates_from_snoc)
qed

lemma alternates_snoc_user:
  "alternates ts \<Longrightarrow> last_role ts = ''assistant'' \<Longrightarrow>
   alternates (ts @ [\<lparr>role = ''user'', turn_text = a\<rparr>]) \<and> 1 < length ts"
proof -
  assume a: "alternates ts" and l: "last_role ts = ''assistant''"
  from l have ne: "ts \<noteq> []" by (auto simp: last_role_def)
  from a have "alternates_from ''user'' ts" by (simp add: alternates_def)
  from alternates_from_last[OF _ this ne] l ne have e: "even (length ts)"
    by (simp add: last_role_def split: if_splits)
  with ne have "1 < length ts" by (cases ts; cases "tl ts") auto
  with a e show ?thesis by (simp add: alternates_def alternates_from_snoc)
qed

lemma last_role_snoc [simp]: "last_role (ts @ [t]) = role t"
  by (simp add: last_role_def)

lemma orderlyD:
  assumes "orderly s"
  shows "jobs s \<le> 1"
    and "jobs s = 1 \<Longrightarrow> \<not> process_enabled s"
    and "jobs s = 1 \<Longrightarrow> action_frame_shown s \<Longrightarrow> \<not> debate_enabled s \<and> \<not> blog_enabled s"
    and "alternates (debate_history s)"
    and "RunDebateTurn \<in> set (workers s) \<Longrightarrow> last_role (debate_history s) = ''user''"
    and "c \<in> set (scheduled s) \<Longrightarrow> debate_callback c \<Longrightarrow>
           last_role (debate_history s) = ''assistant''"
    and "process_enabled s \<Longrightarrow> process_command s = SendRebuttalThreaded \<Longrightarrow>
           last_role (debate_history s) = ''assistant''"
    and "process_command s = SendRebuttalThreaded \<Longrightarrow> set (workers s) \<subseteq> {RunDebateTurn}"
    and "process_command s = SendRebuttalThreaded \<Longrightarrow> c \<in> set (scheduled s) \<Longrightarrow>
           debate_callback c \<or> \<not> significant c"
    and "process_command s = SendRebuttalThreaded \<Longrightarrow> \<not> confirm_shown s \<and> \<not> blog_shown s"
    and "process_command s = ProcessInputThreaded \<Longrightarrow> RunDebateTurn \<notin> set (workers s)"
    and "process_command s = ProcessInputThreaded \<Longrightarrow> c \<in> set (scheduled s) \<Longrightarrow>
           \<not> debate_callback c"
    and "process_command s = ProcessInputThreaded \<or> process_command s = SendRebuttalThreaded"
    and "debate_command s = StartDebateMode \<or> debate_command s = EndDebate"
    and "ProcessTranscriptionFromQueue \<notin> set (scheduled s)"
  using assms unfolding orderly_def by blast+

lemma jobs_zero: "jobs s = 0 \<longleftrightarrow> workers s = [] \<and> filter significant (scheduled s) = []"
  by (simp add: jobs_def)

lemma orderly_idle_process:
  assumes "orderly s" "process_enabled s"
  shows "jobs s = 0"
  using orderlyD(1,2)[OF assms(1)] assms(2) by (cases "jobs s = 1") auto

lemma orderly_idle_debate:
  assumes "orderly s" "debate_enabled s" "action_frame_shown s"
  shows "jobs s = 0"
  using orderlyD(1,3)[OF assms(1)] assms(2,3) by (cases "jobs s = 1") auto

lemma orderly_idle_blog:
  assumes "orderly s" "blog_enabled s" "action_frame_shown s"
  shows "jobs s = 0"
  using orderlyD(1,3)[OF assms(1)] assms(2,3) by (cases "jobs s = 1") auto

lemma orderly_frames [simp]:
  "orderly (append_to_log w m s) = orderly s"
  "orderly (show_dialog d s) = orderly s"
  "orderly (report_exception e s) = orderly s"
  "orderly (set_input_text t s) = orderly s"
  "orderly (stop_loading_animation s) = orderly s"
  "orderly (select_question q s) = orderly s"
  by (simp_all add: orderly_def jobs_def append_to_log_def show_dialog_def
      report_exception_def set_input_text_def stop_loading_animation_def select_question_def)

lemma orderly_record_input_toggle:
  "orderly s \<Longrightarrow> orderly (record_input_toggle s)"
  unfolding orderly_def jobs_def by (simp add: record_input_toggle_def)

lemma orderly_confirm_focus:
  "orderly s \<Longrightarrow> orderly (confirm_focus s)"
  unfolding orderly_def jobs_def
  by (simp add: confirm_focus_def Let_def append_to_log_def set_input_text_def
      stop_loading_animation_def show_dialog_def report_exception_def split: sum.splits)

lemma orderly_set_buttons_state_False:
  "orderly s \<Longrightarrow> orderly (set_buttons_state False s)"
  unfolding orderly_def jobs_def by (simp add: set_buttons_state_def)

lemma orderly_process_input_threaded:
  "orderly s \<Longrightarrow> process_enabled s \<Longrightarrow> process_command s = ProcessInputThreaded \<Longrightarrow>
   orderly (process_input_threaded s)"
proof -
  assume o: "orderly s" and e: "process_enabled s" and c: "process_command s = ProcessInputThreaded"
  from orderly_idle_process[OF o e] have z: "workers s = []" "filter significant (scheduled s) = []"
    by (simp_all add: jobs_zero)
  from o z c show ?thesis
    unfolding orderly_def jobs_def
    by (simp add: process_input_threaded_def Let_def show_dialog_def set_buttons_state_def
        start_loading_animation_def)
qed

lemma orderly_generate_blog_post_threaded:
  "orderly s \<Longrightarrow> blog_enabled s \<Longrightarrow> blog_shown s \<Longrightarrow> action_frame_shown s \<Longrightarrow>
   orderly (generate_blog_post_threaded s)"
proof -
  assume o: "orderly s" and e: "blog_enabled s" "action_frame_shown s" and b: "blog_shown s"
  from orderly_idle_blog[OF o e] have z: "workers s = []" "filter significant (scheduled s) = []"
    by (simp_all add: jobs_zero)
  from orderlyD(10,13)[OF o] b have c: "process_command s = ProcessInputThreaded" by auto
  from o z c show ?thesis
    unfolding orderly_def jobs_def
    by (simp add: generate_blog_post_threaded_def Let_def show_dialog_def set_buttons_state_def
        start_loading_animation_def report_exception_def split: sum.splits)
qed

lemma set_without: "set (without k xs) \<subseteq> set xs"
  unfolding without_def by (auto dest: in_set_takeD in_set_dropD)

lemma filter_without:
  "k < length xs \<Longrightarrow>
   length (filter P xs) = length (filter P (without k xs)) + (if P (xs ! k) then 1 else 0)"
proof -
  assume k: "k < length xs"
  have "filter P xs = filter P (take k xs @ xs ! k # drop (Suc k) xs)"
    using id_take_nth_drop[OF k] by simp
  then show ?thesis by (simp add: without_def)
qed

lemma length_without: "k < length xs \<Longrightarrow> length xs = Suc (length (without k xs))"
  by (simp add: without_def)

lemma quiet_facts:
  assumes "jobs s = 0"
  shows "workers s = []" and "filter significant (scheduled s) = []"
    and "\<forall>c \<in> set (scheduled s). \<not> significant c"
    and "\<forall>c \<in> set (scheduled s). \<not> debate_callback c"
proof -
  from assms show w: "workers s = []" and f: "filter significant (scheduled s) = []"
    by (simp_all add: jobs_zero)
  from f show n: "\<forall>c \<in> set (scheduled s). \<not> significant c"
    by (simp add: filter_empty_conv)
  then show "\<forall>c \<in> set (scheduled s). \<not> debate_callback c"
    by (auto simp: debate_callback_def significant_def split: callback.splits)
qed

lemma orderly_drop_callback:
  assumes "orderly s" "k < length (scheduled s)"
  shows "orderly (s\<lparr>scheduled := without k (scheduled s)\<rparr>)"
proof -
  have sub: "set (without k (scheduled s)) \<subseteq> set (scheduled s)" by (rule set_without)
  have le: "length (filter significant (without k (scheduled s)))
      \<le> length (filter significant (scheduled s))"
    using filter_without[OF assms(2), of significant] by simp
  have t: "jobs (s\<lparr>scheduled := without k (scheduled s)\<rparr>) \<le> jobs s"
    using le by (simp add: jobs_def)
  have t1: "jobs (s\<lparr>scheduled := without k (scheduled s)\<rparr>) = 1 \<Longrightarrow> jobs s = 1"
    using t orderlyD(1)[OF assms(1)] by simp
  show ?thesis
    unfolding orderly_def
    using orderlyD(1)[OF assms(1)] orderlyD(2,3)[OF assms(1)] t t1 orderlyD(4,5,7,8,10,11,13,14,15)[OF assms(1)]
      orderlyD(6,9,12)[OF assms(1)] sub
    by (simp add: subset_iff) blast
qed

lemma orderly_drop_worker:
  assumes "orderly s" "k < length (workers s)"
  shows "orderly (s\<lparr>workers := without k (workers s)\<rparr>)"
proof -
  have sub: "set (without k (workers s)) \<subseteq> set (workers s)" by (rule set_without)
  have t: "jobs (s\<lparr>workers := without k (workers s)\<rparr>) \<le> jobs s"
    using length_without[OF assms(2)] by (simp add: jobs_def)
  have t1: "jobs (s\<lparr>workers := without k (workers s)\<rparr>) = 1 \<Longrightarrow> jobs s = 1"
    using t orderlyD(1)[OF assms(1)] by simp
  show ?thesis
    unfolding orderly_def
    using orderlyD(1)[OF assms(1)] orderlyD(2,3)[OF assms(1)] t t1 orderlyD(4,5,7,8,10,11,13,14,15)[OF assms(1)]
      orderlyD(6,9,12)[OF assms(1)] sub
    by (simp add: subset_iff) blast
qed

lemma quiet_after_worker:
  assumes "orderly s" "k < length (workers s)"
  shows "jobs (s\<lparr>workers := without k (workers s)\<rparr>) = 0" and "jobs s = 1"
  using orderlyD(1)[OF assms(1)] length_without[OF assms(2)]
  by (simp_all add: jobs_def)

lemma quiet_after_callback:
  assumes "orderly s" "k < length (scheduled s)" "significant (scheduled s ! k)"
  shows "jobs (s\<lparr>scheduled := without k (scheduled s)\<rparr>) = 0" and "jobs s = 1"
  using orderlyD(1)[OF assms(1)] filter_without[OF assms(2), of significant] assms(3)
  by (simp_all add: jobs_def)

lemma orderly_send_rebuttal_threaded:
  assumes o: "orderly s" and e: "process_enabled s"
    and c: "process_command s = SendRebuttalThreaded"
  shows "orderly (send_rebuttal_threaded s)"
proof -
  note q = quiet_facts[OF orderly_idle_process[OF o e]]
  from orderlyD(7)[OF o e c] have l: "last_role (debate_history s) = ''assistant''" .
  note a = alternates_snoc_user[OF orderlyD(4)[OF o] l]
  from o q c a show ?thesis
    unfolding orderly_def jobs_def
    by (simp add: send_rebuttal_threaded_def Let_def show_dialog_def set_buttons_state_def
        start_loading_animation_def append_to_log_def set_input_text_def)
qed

lemma last_role_single [simp]: "last_role [t] = role t"
  by (simp add: last_role_def)

lemma alternates_single [simp]: "alternates [t] = (role t = ''user'')"
  by (simp add: alternates_def)

lemma alternates_Nil [simp]: "alternates []"
  by (simp add: alternates_def)

lemma orderly_start_debate_mode:
  assumes o: "orderly s" and e: "debate_enabled s" "action_frame_shown s"
  shows "orderly (start_debate_mode s)"
proof -
  note q = quiet_facts[OF orderly_idle_debate[OF o e]]
  from o q show ?thesis
    unfolding orderly_def jobs_def
    by (simp add: start_debate_mode_def send_rebuttal_threaded_def Let_def show_dialog_def
        set_buttons_state_def start_loading_animation_def append_to_log_def set_input_text_def
        set_gui_mode_def report_exception_def
        split: sum.splits)
qed

lemma orderly_end_debate:
  assumes o: "orderly s" and e: "debate_enabled s" "action_frame_shown s"
  shows "orderly (end_debate s)"
proof -
  note q = quiet_facts[OF orderly_idle_debate[OF o e]]
  from o q show ?thesis
    unfolding orderly_def jobs_def
    by (simp add: end_debate_def Let_def append_to_log_def set_input_text_def
        set_gui_mode_def create_question_cards_def stop_loading_animation_def)
qed

lemma orderly_run_thought_processing:
  assumes o: "orderly s" and q: "jobs s = 0" and c: "process_command s = ProcessInputThreaded"
    and g: "\<not> process_enabled s" "action_frame_shown s \<longrightarrow> \<not> debate_enabled s \<and> \<not> blog_enabled s"
  shows "orderly (run_thought_processing api_key loads rs raw s)"
  using o quiet_facts[OF q] c g
  unfolding orderly_def jobs_def
  by (simp add: run_thought_processing_def significant_def debate_callback_def
      split: outcome.splits exn.splits)

lemma orderly_run_blog_post_generation:
  assumes o: "orderly s" and q: "jobs s = 0" and c: "process_command s = ProcessInputThreaded"
    and g: "\<not> process_enabled s" "action_frame_shown s \<longrightarrow> \<not> debate_enabled s \<and> \<not> blog_enabled s"
  shows "orderly (run_blog_post_generation api_key rs s)"
  using o quiet_facts[OF q] c g
  unfolding orderly_def jobs_def
  by (simp add: run_blog_post_generation_def significant_def debate_callback_def
      report_exception_def split: outcome.splits exn.splits sum.splits)

lemma orderly_run_debate_turn:
  assumes o: "orderly s" and q: "jobs s = 0" and c: "process_command s = SendRebuttalThreaded"
    and g: "\<not> process_enabled s" "action_frame_shown s \<longrightarrow> \<not> debate_enabled s \<and> \<not> blog_enabled s"
    and l: "last_role (debate_history s) = ''user''"
  shows "orderly (run_debate_turn api_key rs s)"
proof -
  note a = alternates_snoc_assistant[OF orderlyD(4)[OF o] l]
  from o quiet_facts[OF q] c g a show ?thesis
    unfolding orderly_def jobs_def
    by (simp add: run_debate_turn_def Let_def significant_def debate_callback_def
        report_exception_def split: outcome.splits exn.splits sum.splits prod.splits)
qed

lemma orderly_update_guided_result:
  assumes o: "orderly s" and q: "jobs s = 0" and c: "process_command s = ProcessInputThreaded"
  shows "orderly (update_guided_result raw result s)"
  using o quiet_facts[OF q] c
  unfolding orderly_def jobs_def
  by (simp add: update_guided_result_def Let_def create_question_cards_def set_input_text_def
      stop_loading_animation_def set_buttons_state_def append_to_log_def report_exception_def
      split: sum.splits prod.splits option.splits)

lemma orderly_handle_error:
  assumes o: "orderly s" and q: "jobs s = 0" and c: "process_command s = ProcessInputThreaded"
  shows "orderly (handle_error m s)"
  using o quiet_facts[OF q] c
  unfolding orderly_def jobs_def
  by (simp add: handle_error_def Let_def stop_loading_animation_def set_buttons_state_def
      append_to_log_def show_dialog_def)

lemma orderly_show_blog_post_window:
  assumes o: "orderly s" and q: "jobs s = 0" and c: "process_command s = ProcessInputThreaded"
  shows "orderly (show_blog_post_window content s)"
  using o quiet_facts[OF q] c
  unfolding orderly_def jobs_def
  by (simp add: show_blog_post_window_def Let_def stop_loading_animation_def
      set_buttons_state_def show_dialog_def)

lemma orderly_update_debate_ui:
  assumes o: "orderly s" and q: "jobs s = 0"
    and l: "last_role (debate_history s) = ''assistant''"
  shows "orderly (update_debate_ui a s)"
  using o quiet_facts[OF q] l
  unfolding orderly_def jobs_def
  by (simp add: update_debate_ui_def Let_def stop_loading_animation_def
      set_buttons_state_def append_to_log_def set_input_text_def)

lemma orderly_click_process:
  assumes o: "orderly s" and e: "process_enabled s"
  shows "orderly (run_command (process_command s) s)"
  using orderlyD(13)[OF o]
proof
  assume c: "process_command s = ProcessInputThreaded"
  with orderly_process_input_threaded[OF o e] show ?thesis by (simp add: run_command_def)
next
  assume c: "process_command s = SendRebuttalThreaded"
  with orderly_send_rebuttal_threaded[OF o e] show ?thesis by (simp add: run_command_def)
qed

lemma orderly_click_debate:
  assumes o: "orderly s" and e: "debate_enabled s" "action_frame_shown s"
  shows "orderly (run_command (debate_command s) s)"
  using orderlyD(14)[OF o] orderly_start_debate_mode[OF o e] orderly_end_debate[OF o e]
  by (auto simp: run_command_def)

lemma orderly_worker_runs:
  assumes o: "orderly s" and k: "k < length (workers s)"
  shows "orderly (run_worker api_key loads rs (workers s ! k) (s\<lparr>workers := without k (workers s)\<rparr>))"
proof -
  let ?s1 = "s\<lparr>workers := without k (workers s)\<rparr>"
  have o1: "orderly ?s1" using o k by (rule orderly_drop_worker)
  have q1: "jobs ?s1 = 0" and t: "jobs s = 1" using quiet_after_worker[OF o k] by simp_all
  have g: "\<not> process_enabled ?s1"
    "action_frame_shown ?s1 \<longrightarrow> \<not> debate_enabled ?s1 \<and> \<not> blog_enabled ?s1"
    using orderlyD(2,3)[OF o t] by simp_all
  have m: "workers s ! k \<in> set (workers s)" using k by simp
  show ?thesis
  proof (cases "workers s ! k")
    case (RunThoughtProcessing raw)
    with m orderlyD(8)[OF o] orderlyD(13)[OF o]
    have "process_command ?s1 = ProcessInputThreaded" by auto
    from orderly_run_thought_processing[OF o1 q1 this g] RunThoughtProcessing
    show ?thesis by (simp add: run_worker_def)
  next
    case RunBlogPostGeneration
    with m orderlyD(8)[OF o] orderlyD(13)[OF o]
    have "process_command ?s1 = ProcessInputThreaded" by auto
    from orderly_run_blog_post_generation[OF o1 q1 this g] RunBlogPostGeneration
    show ?thesis by (simp add: run_worker_def)
  next
    case RunDebateTurn
    with m orderlyD(11)[OF o] orderlyD(13)[OF o]
    have c: "process_command ?s1 = SendRebuttalThreaded" by auto
    from RunDebateTurn m orderlyD(5)[OF o]
    have l: "last_role (debate_history ?s1) = ''user''" by simp
    from orderly_run_debate_turn[OF o1 q1 c g l] RunDebateTurn
    show ?thesis by (simp add: run_worker_def)
  qed
qed

lemma orderly_callback_runs:
  assumes o: "orderly s" and k: "k < length (scheduled s)"
  shows "orderly (run_callback b (scheduled s ! k) (s\<lparr>scheduled := without k (scheduled s)\<rparr>))"
proof -
  let ?s1 = "s\<lparr>scheduled := without k (scheduled s)\<rparr>"
  have o1: "orderly ?s1" using o k by (rule orderly_drop_callback)
  have m: "scheduled s ! k \<in> set (scheduled s)" using k by simp
  have q1: "significant (scheduled s ! k) \<Longrightarrow> jobs ?s1 = 0"
    using quiet_after_callback(1)[OF o k] by simp
  have guided: "significant (scheduled s ! k) \<Longrightarrow> \<not> debate_callback (scheduled s ! k) \<Longrightarrow>
      process_command ?s1 = ProcessInputThreaded"
    using orderlyD(9)[OF o _ m] orderlyD(13)[OF o] by auto
  show ?thesis
  proof (cases "scheduled s ! k")
    case (UpdateGuidedResult raw result)
    then have "significant (scheduled s ! k)" "\<not> debate_callback (scheduled s ! k)"
      by (simp_all add: significant_def debate_callback_def)
    from orderly_update_guided_result[OF o1 q1[OF this(1)] guided[OF this]] UpdateGuidedResult
    show ?thesis by (simp add: run_callback_def)
  next
    case (HandleError msg)
    then have "significant (scheduled s ! k)" "\<not> debate_callback (scheduled s ! k)"
      by (simp_all add: significant_def debate_callback_def)
    from orderly_handle_error[OF o1 q1[OF this(1)] guided[OF this]] HandleError
    show ?thesis by (simp add: run_callback_def)
  next
    case (HandleErrorOf msg e)
    then have "significant (scheduled s ! k)" "\<not> debate_callback (scheduled s ! k)"
      by (simp_all add: significant_def debate_callback_def)
    from orderly_handle_error[OF o1 q1[OF this(1)] guided[OF this]] HandleErrorOf o1
    show ?thesis by (simp add: run_callback_def)
  next
    case (ShowErrorOf e)
    with o1 show ?thesis by (simp add: run_callback_def)
  next
    case (ShowBlogPostWindow content)
    then have "significant (scheduled s ! k)" "\<not> debate_callback (scheduled s ! k)"
      by (simp_all add: significant_def debate_callback_def)
    from orderly_show_blog_post_window[OF o1 q1[OF this(1)] guided[OF this]] ShowBlogPostWindow
    show ?thesis by (simp add: run_callback_def)
  next
    case (UpdateDebateUI a)
    then have sg: "significant (scheduled s ! k)" and d: "debate_callback (scheduled s ! k)"
      by (simp_all add: significant_def debate_callback_def)
    from orderlyD(6)[OF o m d] have l: "last_role (debate_history ?s1) = ''assistant''" by simp
    from orderly_update_debate_ui[OF o1 q1[OF sg] l] UpdateDebateUI
    show ?thesis by (simp add: run_callback_def)
  next
    case ProcessTranscriptionFromQueue
    with m orderlyD(15)[OF o] show ?thesis by simp
  qed
qed

lemma orderly_handle_event:
  assumes o: "orderly s" and t: "typed_only [ev]"
  shows "orderly (handle_event api_key loads ev s)"
proof (cases ev)
  case (TypeText x)
  with o show ?thesis by (simp add: handle_event_def)
next
  case ClickProcess
  with o orderly_click_process[OF o] show ?thesis by (simp add: handle_event_def)
next
  case ClickConfirm
  with o orderly_confirm_focus[OF o] show ?thesis by (simp add: handle_event_def)
next
  case ClickBlogPost
  with o orderly_generate_blog_post_threaded[OF o] show ?thesis by (simp add: handle_event_def)
next
  case ClickDebate
  with o orderly_click_debate[OF o] show ?thesis by (simp add: handle_event_def)
next
  case ClickRecord
  with o orderly_record_input_toggle[OF o] show ?thesis by (simp add: handle_event_def)
next
  case (ClickCard x)
  with o show ?thesis by (simp add: handle_event_def)
next
  case (PhraseHeard x)
  with t show ?thesis by (simp add: typed_only_def)
next
  case (WorkerRuns k rs)
  with o orderly_worker_runs[OF o, of k api_key loads rs] show ?thesis
    by (simp add: handle_event_def)
next
  case (CallbackRuns k b)
  with o orderly_callback_runs[OF o, of k b] show ?thesis by (simp add: handle_event_def)
qed

lemma orderly_run_events:
  "orderly s \<Longrightarrow> typed_only evs \<Longrightarrow> orderly (run_events api_key loads evs s)"
proof (induction evs arbitrary: s)
  case Nil
  then show ?case by simp
next
  case (Cons ev evs)
  from Cons.prems(2) have a: "typed_only [ev]" and b: "typed_only evs"
    by (simp_all add: typed_only_def)
  from Cons.IH[OF orderly_handle_event[OF Cons.prems(1) a] b] show ?case by simp
qed

lemma typed_debate_alternates:
  "typed_only evs \<Longrightarrow> alternates (debate_history (run_events api_key loads evs init))"
  using orderly_run_events[OF orderly_init] orderlyD(4) by blast

text \<open>
  Claim C8 does not hold of the code. The send button is disabled while a turn is in
  flight, but \<^verbatim>\<open>process_transcription_from_queue\<close> enables it again whenever a dictated
  phrase arrives. A user who dictates, sends the first phrase and has a second phrase
  recognised before the opponent's reply can send again: two user turns follow each
  other in the debate history.
\<close>

theorem dictation_breaks_alternation:
  "map role (debate_history (run_events ''key'' sample_loads dictated_twice init))
     = [''user'', ''assistant'', ''user'', ''user'']
   \<and> \<not> alternates (debate_history (run_events ''key'' sample_loads dictated_twice init))"
  by code_simp

end
